theory Spec2Isabelle
  imports Main "HOL-Library.Word"
begin

unbundle bit_operations_syntax

section \<open>Bytes, errors and Go slices\<close>

type_synonym byte = "8 word"
type_synonym bytes = "byte list"

text \<open>
  Errors that the functions of \<^verbatim>\<open>v1pssst.go\<close> return. \<open>PSSSTError\<close> carries the
  message of the package's own error type; the other constructors are the errors of the Go
  libraries the code calls (\<^verbatim>\<open>io.EOF\<close>, \<^verbatim>\<open>io.ErrUnexpectedEOF\<close>,
  \<^verbatim>\<open>aes.KeySizeError\<close>, the \<^verbatim>\<open>cipher: message authentication failed\<close> error of
  \<^verbatim>\<open>AEAD.Open\<close>, and whatever \<^verbatim>\<open>curve25519.X25519\<close> reports).
\<close>

datatype error =
    PSSSTError string
  | EOF
  | ErrUnexpectedEOF
  | KeySizeError nat
  | ErrOpen
  | X25519Error string

text \<open>
  A call either returns (a value or an error) or panics. \<open>Err e\<close> is an error returned
  to the caller; \<open>Panic\<close> is a Go run-time panic (slice bounds out of range).
\<close>

datatype fault = Err error | Panic

definition and_then :: "('e + 'a) \<Rightarrow> ('a \<Rightarrow> 'e + 'b) \<Rightarrow> 'e + 'b" where
  "and_then r f = (case r of Inl e \<Rightarrow> Inl e | Inr v \<Rightarrow> f v)"

definition lift_err :: "(error + 'a) \<Rightarrow> fault + 'a" where
  "lift_err r = (case r of Inl e \<Rightarrow> Inl (Err e) | Inr v \<Rightarrow> Inr v)"

text \<open>
  A \<^verbatim>\<open>[]byte\<close> is modelled by the list of its elements, with capacity equal to length
  (a slice literal, a \<^verbatim>\<open>make([]byte, n)\<close>, the result of \<^verbatim>\<open>Open(nil, ...)\<close>).
  \<open>slice xs lo hi\<close> is \<^verbatim>\<open>xs[lo:hi]\<close> and \<open>slice_from xs lo\<close> is \<^verbatim>\<open>xs[lo:]\<close>; both panic
  out of range. \<open>go_copy dst src\<close> is the content of \<open>dst\<close> after \<^verbatim>\<open>copy(dst, src)\<close>,
  which copies \<open>min (len dst) (len src)\<close> elements.
\<close>

definition slice :: "'a list \<Rightarrow> nat \<Rightarrow> nat \<Rightarrow> fault + 'a list" where
  "slice xs lo hi =
     (if lo \<le> hi \<and> hi \<le> length xs then Inr (take (hi - lo) (drop lo xs)) else Inl Panic)"

definition slice_from :: "'a list \<Rightarrow> nat \<Rightarrow> fault + 'a list" where
  "slice_from xs lo = (if lo \<le> length xs then Inr (drop lo xs) else Inl Panic)"

definition go_copy :: "'a list \<Rightarrow> 'a list \<Rightarrow> 'a list" where
  "go_copy dst src = take (length dst) src @ drop (length src) dst"

section \<open>The cryptographic primitives\<close>

text \<open>
  The code calls \<^verbatim>\<open>curve25519.X25519\<close>, \<^verbatim>\<open>sha256\<close> and AES-GCM from Go's libraries.
  They are parameters of the model: \<open>x25519 c scalar point\<close> is
  \<^verbatim>\<open>curve25519.X25519(scalar, point)\<close>, \<open>sha256 c m\<close> the SHA-256 digest of \<open>m\<close>,
  \<open>gcm_seal c key nonce plaintext aad\<close> is \<^verbatim>\<open>Seal(nil, nonce, plaintext, aad)\<close> of the
  AEAD made from \<open>key\<close>, and \<open>gcm_open c key nonce ciphertext aad\<close> is
  \<^verbatim>\<open>Open(nil, nonce, ciphertext, aad)\<close>, \<open>None\<close> when authentication fails.
  \<^verbatim>\<open>Seal\<close> and \<^verbatim>\<open>Open\<close> panic on a nonce that has not 12 bytes; the code only
  passes them the nonces of the key derivation, which have 12.
\<close>

record crypto =
  x25519 :: "bytes \<Rightarrow> bytes \<Rightarrow> error + bytes"
  sha256 :: "bytes \<Rightarrow> bytes"
  gcm_seal :: "bytes \<Rightarrow> bytes \<Rightarrow> bytes \<Rightarrow> bytes \<Rightarrow> bytes"
  gcm_open :: "bytes \<Rightarrow> bytes \<Rightarrow> bytes \<Rightarrow> bytes \<Rightarrow> bytes option"

text \<open>\<^verbatim>\<open>curve25519.Basepoint\<close>: the byte 9 followed by 31 zero bytes.\<close>

definition Basepoint :: bytes where
  "Basepoint = 9 # replicate 31 0"

text \<open>
  \<^verbatim>\<open>aes.NewCipher(key)\<close> fails with a \<^verbatim>\<open>KeySizeError\<close> unless the key has 16, 24 or 32
  bytes; \<^verbatim>\<open>cipher.NewGCM\<close> of an AES block never fails. The AEAD object is modelled by
  its key.
\<close>

definition aes_NewCipher :: "bytes \<Rightarrow> fault + bytes" where
  "aes_NewCipher key =
     (if length key = 16 \<or> length key = 24 \<or> length key = 32 then Inr key
      else Inl (Err (KeySizeError (length key))))"

definition cipher_NewGCM :: "bytes \<Rightarrow> fault + bytes" where
  "cipher_NewGCM block = Inr block"

text \<open>
  What the proofs assume of the primitives: SHA-256 returns 32 bytes; \<^verbatim>\<open>X25519\<close> returns
  32 bytes and commutes, \<open>X25519(a, X25519(b, P)) = X25519(b, X25519(a, P))\<close>; and, for a
  16-byte key and a 12-byte nonce, \<^verbatim>\<open>Open\<close> inverts \<^verbatim>\<open>Seal\<close> and rejects a
  ciphertext shorter than the 16-byte tag.
\<close>

definition sha_ok :: "crypto \<Rightarrow> bool" where
  "sha_ok c \<longleftrightarrow> (\<forall>m. length (sha256 c m) = 32)"

definition dh_ok :: "crypto \<Rightarrow> bool" where
  "dh_ok c \<longleftrightarrow>
     (\<forall>a b P Q R. x25519 c b P = Inr Q \<and> x25519 c a P = Inr R \<longrightarrow> x25519 c a Q = x25519 c b R)
     \<and> (\<forall>s P Q. x25519 c s P = Inr Q \<longrightarrow> length Q = 32)"

definition aead_ok :: "crypto \<Rightarrow> bool" where
  "aead_ok c \<longleftrightarrow>
     (\<forall>k n p a. length k = 16 \<and> length n = 12 \<longrightarrow>
        gcm_open c k n (gcm_seal c k n p a) a = Some p)
     \<and> (\<forall>k n ct a. length k = 16 \<and> length n = 12 \<and> length ct < 16 \<longrightarrow>
        gcm_open c k n ct a = None)"

definition crypto_ok :: "crypto \<Rightarrow> bool" where
  "crypto_ok c \<longleftrightarrow> sha_ok c \<and> dh_ok c \<and> aead_ok c"

section \<open>Randomness\<close>

text \<open>
  An \<^verbatim>\<open>io.Reader\<close> is modelled by the bytes it still has to deliver. \<open>io_ReadFull r n\<close>
  is \<^verbatim>\<open>io.ReadFull\<close> into a buffer of \<open>n > 0\<close> bytes: \<^verbatim>\<open>io.EOF\<close> when nothing could be
  read, \<^verbatim>\<open>io.ErrUnexpectedEOF\<close> when the source ended early.
\<close>

type_synonym reader = bytes

definition io_ReadFull :: "reader \<Rightarrow> nat \<Rightarrow> (error + bytes) \<times> reader" where
  "io_ReadFull r n =
     (if n \<le> length r then (Inr (take n r), drop n r)
      else (Inl (if r = [] then EOF else ErrUnexpectedEOF), []))"

text \<open>The clamping of lines 44 to 46, on a 32-byte array.\<close>

definition clamp :: "bytes \<Rightarrow> bytes" where
  "clamp priv =
     (let p1 = priv[0 := (priv ! 0) AND 248];
          p2 = p1[31 := (p1 ! 31) AND 127];
          p3 = p2[31 := (p2 ! 31) OR 64]
      in p3)"

text \<open>
  \<open>generateX22519Private random os\<close>: \<open>random\<close> is the reader argument (\<open>None\<close> for
  \<^verbatim>\<open>nil\<close>), \<open>os\<close> the state of \<^verbatim>\<open>rand.Reader\<close>. Returns the result and both readers
  after the call.
\<close>

definition generateX22519Private ::
  "reader option \<Rightarrow> reader \<Rightarrow> (fault + bytes) \<times> reader option \<times> reader" where
  "generateX22519Private random os =
     (case random of
        None \<Rightarrow>
          (case io_ReadFull os 32 of
             (Inl e, os') \<Rightarrow> (Inl (Err e), None, os')
           | (Inr priv, os') \<Rightarrow> (Inr (clamp priv), None, os'))
      | Some rd \<Rightarrow>
          (case io_ReadFull rd 32 of
             (Inl e, rd') \<Rightarrow> (Inl (Err e), Some rd', os)
           | (Inr priv, rd') \<Rightarrow> (Inr (clamp priv), Some rd', os)))"

section \<open>The key derivation\<close>

definition RQST :: bytes where
  "RQST = [0x52, 0x51, 0x53, 0x54]"

definition RPLY :: bytes where
  "RPLY = [0x52, 0x50, 0x4C, 0x59]"

definition kdfX25519AESGCM128 :: "crypto \<Rightarrow> bytes \<Rightarrow> bytes \<Rightarrow> fault + (bytes \<times> bytes \<times> bytes)" where
  "kdfX25519AESGCM128 c dhParam sharedSecret =
     (let derivedBytes = sha256 c (dhParam @ sharedSecret) in
      and_then (slice derivedBytes 0 16) (\<lambda>key.
      and_then (slice derivedBytes 16 24) (\<lambda>d1.
      and_then (slice derivedBytes 24 32) (\<lambda>d2.
        let iv_c = go_copy (replicate 8 0) d1 @ RQST;
            iv_s = go_copy (replicate 8 0) d2 @ RPLY
        in Inr (key, iv_c, iv_s)))))"

section \<open>The packet header\<close>

text \<open>
  Modelled from the spec: the declarations of the type \<^verbatim>\<open>header\<close>, of the flag constants
  \<^verbatim>\<open>flagsReply\<close> and \<^verbatim>\<open>flagsClientAuth\<close> and of \<^verbatim>\<open>CipherSuiteX25519AESGCM\<close> are
  not in \<^verbatim>\<open>v1pssst.go\<close>, which only uses them. The spec's data model gives the header
  four bytes on the wire, big-endian: the flags (2 bytes, bit 0 = REPLY, bit 1 =
  CLIENT\_AUTH), the cipher suite (1 byte, \<open>0x01\<close> for X25519-AES128GCM-SHA256) and a
  reserved byte (zero on send, ignored on receive). The record has the two fields that the
  code sets and reads.
\<close>

record header =
  Flags :: "16 word"
  CipherSuite :: byte

definition flagsReply :: "16 word" where
  "flagsReply = 1"

definition flagsClientAuth :: "16 word" where
  "flagsClientAuth = 2"

definition CipherSuiteX25519AESGCM :: byte where
  "CipherSuiteX25519AESGCM = 1"

text \<open>
  \<open>binary_Write h\<close> is what \<^verbatim>\<open>binary.Write(buf, binary.BigEndian, h)\<close> appends (it
  cannot fail on a fixed-size struct); \<open>binary_Read bs\<close> is
  \<^verbatim>\<open>binary.Read(bytes.NewReader(bs), binary.BigEndian, &h)\<close>, which fails with
  \<^verbatim>\<open>io.EOF\<close> on an empty input and \<^verbatim>\<open>io.ErrUnexpectedEOF\<close> on fewer than four bytes.
\<close>

definition binary_Write :: "header \<Rightarrow> bytes" where
  "binary_Write h = [ucast (drop_bit 8 (Flags h)), ucast (Flags h), CipherSuite h, 0]"

definition binary_Read :: "bytes \<Rightarrow> error + header" where
  "binary_Read bs =
     (if length bs < 4 then Inl (if bs = [] then EOF else ErrUnexpectedEOF)
      else Inr \<lparr>Flags = push_bit 8 (ucast (bs ! 0)) OR ucast (bs ! 1), CipherSuite = bs ! 2\<rparr>)"

section \<open>The client: PackOutgoing and its reply decoder\<close>

text \<open>
  The struct \<^verbatim>\<open>clientX25519AESGCM128\<close>. A field that the code compares with \<^verbatim>\<open>nil\<close>
  is an option; \<open>nil_bytes\<close> reads such a field as a slice (\<^verbatim>\<open>nil\<close> has length 0).
\<close>

record client =
  ServerPublicKey :: bytes
  ClientPrivateKey :: "bytes option"
  clientPublicKey :: "bytes option"
  clientServerPublicKey :: "bytes option"

definition nil_bytes :: "bytes option \<Rightarrow> bytes" where
  "nil_bytes b = (case b of None \<Rightarrow> [] | Some v \<Rightarrow> v)"

text \<open>
  Lines 93 to 100: the two cached values are computed when \<open>clientPublicKey\<close> is
  \<^verbatim>\<open>nil\<close>. A failing \<^verbatim>\<open>X25519\<close> returns \<^verbatim>\<open>nil\<close>, which is assigned to the field.
\<close>

definition client_auth_keys :: "crypto \<Rightarrow> client \<Rightarrow> bytes \<Rightarrow> error option \<times> client" where
  "client_auth_keys c cl csk =
     (case clientPublicKey cl of
        Some _ \<Rightarrow> (None, cl)
      | None \<Rightarrow>
          (case x25519 c csk Basepoint of
             Inl e \<Rightarrow> (Some e, cl\<lparr>clientPublicKey := None\<rparr>)
           | Inr cpk \<Rightarrow>
               (case x25519 c csk (ServerPublicKey cl) of
                  Inl e \<Rightarrow>
                    (Some e, cl\<lparr>clientPublicKey := Some cpk, clientServerPublicKey := None\<rparr>)
                | Inr cs \<Rightarrow>
                    (None, cl\<lparr>clientPublicKey := Some cpk, clientServerPublicKey := Some cs\<rparr>))))"

text \<open>Lines 108 to 112: \<open>extendedData\<close> after the three \<^verbatim>\<open>copy\<close> calls.\<close>

definition extend_data :: "bytes \<Rightarrow> bytes \<Rightarrow> bytes \<Rightarrow> bytes" where
  "extend_data cpk sessionSecret data =
     (let e0 = replicate (length data + 64) 0;
          e1 = go_copy (take 32 e0) cpk @ drop 32 e0;
          e2 = take 32 e1 @ go_copy (take 32 (drop 32 e1)) sessionSecret @ drop 64 e1;
          e3 = take 64 e2 @ go_copy (drop 64 e2) data
      in e3)"

text \<open>
  Lines 89 to 120: the header flags, \<open>dhParam\<close>, \<open>sharedSecret\<close> and the data to seal,
  with the client context after the call.
\<close>

definition request_keys ::
  "crypto \<Rightarrow> client \<Rightarrow> bytes \<Rightarrow> bytes \<Rightarrow> (fault + (16 word \<times> bytes \<times> bytes \<times> bytes)) \<times> client" where
  "request_keys c cl sessionSecret data =
     (case ClientPrivateKey cl of
        Some csk \<Rightarrow>
          (case client_auth_keys c cl csk of
             (Some e, cl') \<Rightarrow> (Inl (Err e), cl')
           | (None, cl') \<Rightarrow>
               (and_then (lift_err (x25519 c sessionSecret (nil_bytes (clientPublicKey cl'))))
                  (\<lambda>dhParam.
                and_then (lift_err (x25519 c sessionSecret (nil_bytes (clientServerPublicKey cl'))))
                  (\<lambda>sharedSecret.
                Inr (0 OR flagsClientAuth, dhParam, sharedSecret,
                     extend_data (nil_bytes (clientPublicKey cl')) sessionSecret data))),
                cl'))
      | None \<Rightarrow>
          (and_then (lift_err (x25519 c sessionSecret Basepoint)) (\<lambda>dhParam.
           and_then (lift_err (x25519 c sessionSecret (ServerPublicKey cl))) (\<lambda>sharedSecret.
           Inr (0, dhParam, sharedSecret, data))),
           cl))"

text \<open>
  The closure returned by \<open>PackOutgoing\<close> captures the variables \<open>aesgcm\<close> (set to
  \<^verbatim>\<open>nil\<close> by the closure), \<open>dhParam\<close> and \<open>serverNonce\<close>, and the pointer \<open>client\<close>.
  The record holds the three variables; the client context is an argument of the call.
\<close>

record clientReply =
  cr_aesgcm :: "bytes option"
  cr_dhParam :: bytes
  cr_serverNonce :: bytes

text \<open>
  \<open>PackOutgoing c cl os data\<close>: \<open>os\<close> is the state of \<^verbatim>\<open>rand.Reader\<close>, which line 85
  always reads (the reader argument is \<^verbatim>\<open>nil\<close>). Returns the result, the client context
  and the state of \<^verbatim>\<open>rand.Reader\<close> after the call.
\<close>

definition PackOutgoing ::
  "crypto \<Rightarrow> client \<Rightarrow> reader \<Rightarrow> bytes \<Rightarrow> (fault + (bytes \<times> clientReply)) \<times> client \<times> reader" where
  "PackOutgoing c cl os data =
     (case generateX22519Private None os of
        (Inl f, _, os') \<Rightarrow> (Inl f, cl, os')
      | (Inr sessionSecret, _, os') \<Rightarrow>
          (case request_keys c cl sessionSecret data of
             (Inl f, cl') \<Rightarrow> (Inl f, cl', os')
           | (Inr (flags, dhParam, sharedSecret, data'), cl') \<Rightarrow>
               (and_then (kdfX25519AESGCM128 c dhParam sharedSecret)
                  (\<lambda>(symetricKey, clientNonce, serverNonce).
                and_then (aes_NewCipher symetricKey) (\<lambda>block.
                and_then (cipher_NewGCM block) (\<lambda>aesgcm.
                  let packetBuffer =
                        binary_Write \<lparr>Flags = flags, CipherSuite = CipherSuiteX25519AESGCM\<rparr>
                          @ dhParam;
                      ciphertext = gcm_seal c aesgcm clientNonce data' (take 4 packetBuffer)
                  in Inr (packetBuffer @ ciphertext,
                          \<lparr>cr_aesgcm = Some aesgcm, cr_dhParam = dhParam,
                           cr_serverNonce = serverNonce\<rparr>)))),
                cl', os')))"

definition aead_Open :: "crypto \<Rightarrow> bytes \<Rightarrow> bytes \<Rightarrow> bytes \<Rightarrow> bytes \<Rightarrow> fault + bytes" where
  "aead_Open c aesgcm nonce ciphertext aad =
     (case gcm_open c aesgcm nonce ciphertext aad of
        None \<Rightarrow> Inl (Err ErrOpen)
      | Some plaintext \<Rightarrow> Inr plaintext)"

text \<open>
  The reply decoder (lines 146 to 179), called with the client context as it is at the
  time of the call. Returns the result and the closure's variables after the call.
\<close>

definition client_replyHandler ::
  "crypto \<Rightarrow> client \<Rightarrow> clientReply \<Rightarrow> bytes \<Rightarrow> (fault + bytes) \<times> clientReply" where
  "client_replyHandler c cl h replyPacketBytes =
     (case cr_aesgcm h of
        None \<Rightarrow> (Inl (Err (PSSSTError ''reply handler already used'')), h)
      | Some aesgcm \<Rightarrow>
          (case binary_Read replyPacketBytes of
             Inl e \<Rightarrow> (Inl (Err e), h)
           | Inr replyHeader \<Rightarrow>
               if Flags replyHeader AND flagsReply = 0
               then (Inl (Err (PSSSTError ''Packet is not a reply'')), h)
               else if (clientPublicKey cl = None) \<noteq> (Flags replyHeader AND flagsClientAuth = 0)
               then (Inl (Err (PSSSTError ''Reply client auth mismatch'')), h)
               else if CipherSuite replyHeader \<noteq> CipherSuiteX25519AESGCM
               then (Inl (Err (PSSSTError ''Unsuported cipher suite'')), h)
               else
                 (case slice replyPacketBytes 4 36 of
                    Inl f \<Rightarrow> (Inl f, h)
                  | Inr binding \<Rightarrow>
                      if binding \<noteq> cr_dhParam h
                      then (Inl (Err (PSSSTError ''Request/reply mismatch'')), h)
                      else
                        (and_then (slice_from replyPacketBytes 36) (\<lambda>ciphertext.
                         and_then (slice replyPacketBytes 0 4) (\<lambda>aad.
                           aead_Open c aesgcm (cr_serverNonce h) ciphertext aad)),
                         h\<lparr>cr_aesgcm := None\<rparr>))))"

section \<open>The server: UnpackIncoming and its reply encoder\<close>

record server =
  ServerPrivateKey :: bytes
  serverPublicKey :: "bytes option"

text \<open>
  The closure returned by \<open>UnpackIncoming\<close> captures \<open>aesgcm\<close> (set to \<^verbatim>\<open>nil\<close> by the
  closure), \<open>hasClientAuth\<close>, \<open>dhParam\<close> and \<open>serverNonce\<close>. \<open>dhParam\<close> is a slice of the
  caller's packet; the model takes its content at the time of \<open>UnpackIncoming\<close>.
\<close>

record serverReply =
  sr_aesgcm :: "bytes option"
  sr_hasClientAuth :: bool
  sr_dhParam :: bytes
  sr_serverNonce :: bytes

definition UnpackIncoming ::
  "crypto \<Rightarrow> server \<Rightarrow> bytes \<Rightarrow> fault + (bytes \<times> serverReply \<times> bytes option)" where
  "UnpackIncoming c srv packetBytes =
     and_then (lift_err (binary_Read packetBytes)) (\<lambda>requestHeader.
       if Flags requestHeader AND flagsReply \<noteq> 0
       then Inl (Err (PSSSTError ''Packet is a reply''))
       else
         let hasClientAuth = (Flags requestHeader AND flagsClientAuth \<noteq> 0) in
         if CipherSuite requestHeader \<noteq> CipherSuiteX25519AESGCM
         then Inl (Err (PSSSTError ''Unsuported cipher suite''))
         else
           and_then (slice packetBytes 4 36) (\<lambda>dhParam.
           and_then (lift_err (x25519 c (ServerPrivateKey srv) dhParam)) (\<lambda>sharedSecret.
           and_then (kdfX25519AESGCM128 c dhParam sharedSecret)
             (\<lambda>(symetricKey, clientNonce, serverNonce).
           and_then (aes_NewCipher symetricKey) (\<lambda>block.
           and_then (cipher_NewGCM block) (\<lambda>aesgcm.
           and_then (slice_from packetBytes 36) (\<lambda>ciphertext.
           and_then (slice packetBytes 0 4) (\<lambda>aad.
           and_then (aead_Open c aesgcm clientNonce ciphertext aad) (\<lambda>payload.
             let replyHandler =
                   \<lparr>sr_aesgcm = Some aesgcm, sr_hasClientAuth = hasClientAuth,
                    sr_dhParam = dhParam, sr_serverNonce = serverNonce\<rparr>
             in
               if hasClientAuth
               then
                 and_then (slice payload 0 32) (\<lambda>clientPublicKeyBytes.
                 and_then (slice payload 32 64) (\<lambda>ephemeralKey.
                 and_then (lift_err (x25519 c ephemeralKey clientPublicKeyBytes)) (\<lambda>checkClient.
                   if checkClient \<noteq> dhParam
                   then Inl (Err (PSSSTError ''Client authentication failed''))
                   else
                     and_then (slice_from payload 64) (\<lambda>data.
                       Inr (data, replyHandler, Some clientPublicKeyBytes)))))
               else Inr (payload, replyHandler, None))))))))))"

text \<open>The reply encoder (lines 259 to 285).\<close>

definition server_replyHandler ::
  "crypto \<Rightarrow> serverReply \<Rightarrow> bytes \<Rightarrow> (fault + bytes) \<times> serverReply" where
  "server_replyHandler c h data =
     (case sr_aesgcm h of
        None \<Rightarrow> (Inl (Err (PSSSTError ''reply handler already used'')), h)
      | Some aesgcm \<Rightarrow>
          (let flags = (if sr_hasClientAuth h then flagsReply OR flagsClientAuth else flagsReply);
               packetBuffer =
                 binary_Write \<lparr>Flags = flags, CipherSuite = CipherSuiteX25519AESGCM\<rparr>
                   @ sr_dhParam h;
               ciphertext = gcm_seal c aesgcm (sr_serverNonce h) data (take 4 packetBuffer)
           in (Inr (packetBuffer @ ciphertext), h\<lparr>sr_aesgcm := None\<rparr>)))"

section \<open>Primitives to evaluate the model with\<close>

text \<open>
  Stand-ins for the library primitives that satisfy \<open>crypto_ok\<close>, so that the model can
  be run on concrete packets: a Diffie-Hellman function that XORs scalar and point, a
  digest that XORs the first two 32-byte blocks of its zero-padded input, and an AEAD whose tag is the key XORed
  with nonce and associated data.
\<close>

definition toy_x25519 :: "bytes \<Rightarrow> bytes \<Rightarrow> error + bytes" where
  "toy_x25519 scalar point =
     (if length scalar \<noteq> 32 then Inl (X25519Error ''bad scalar length'')
      else if length point \<noteq> 32 then Inl (X25519Error ''bad point length'')
      else Inr (map2 (XOR) scalar point))"

definition toy_sha256 :: "bytes \<Rightarrow> bytes" where
  "toy_sha256 m =
     map2 (XOR) (take 32 (m @ replicate 32 0)) (take 32 (drop 32 m @ replicate 32 0))"

definition toy_tag :: "bytes \<Rightarrow> bytes \<Rightarrow> bytes \<Rightarrow> bytes" where
  "toy_tag key nonce aad = take 16 (map2 (XOR) (key @ replicate 16 0) (nonce @ aad @ replicate 16 0))"

definition toy_seal :: "bytes \<Rightarrow> bytes \<Rightarrow> bytes \<Rightarrow> bytes \<Rightarrow> bytes" where
  "toy_seal key nonce plaintext aad = plaintext @ toy_tag key nonce aad"

definition toy_open :: "bytes \<Rightarrow> bytes \<Rightarrow> bytes \<Rightarrow> bytes \<Rightarrow> bytes option" where
  "toy_open key nonce ciphertext aad =
     (if length ciphertext < 16 then None
      else if drop (length ciphertext - 16) ciphertext = toy_tag key nonce aad
      then Some (take (length ciphertext - 16) ciphertext) else None)"

definition toy :: crypto where
  "toy = \<lparr>x25519 = toy_x25519, sha256 = toy_sha256, gcm_seal = toy_seal, gcm_open = toy_open\<rparr>"

section \<open>Well-formed client contexts and a worked scenario\<close>

text \<open>
  The two cached fields of a client context are private to the package: they are
  \<^verbatim>\<open>nil\<close> in a new context and are only written by lines 94 and 97. \<open>client_cache_ok\<close>
  says that they are either still \<^verbatim>\<open>nil\<close> or hold what those lines compute from the
  context's keys.
\<close>

definition client_cache_ok :: "crypto \<Rightarrow> client \<Rightarrow> bool" where
  "client_cache_ok c cl =
     (case clientPublicKey cl of
        None \<Rightarrow> True
      | Some cpk \<Rightarrow>
          (case ClientPrivateKey cl of
             None \<Rightarrow> False
           | Some csk \<Rightarrow>
               x25519 c csk Basepoint = Inr cpk
               \<and> map_option Inr (clientServerPublicKey cl)
                   = Some (x25519 c csk (ServerPublicKey cl))))"

text \<open>
  A reply decoder returned by \<open>PackOutgoing\<close> holds an AEAD with a 16-byte key, or
  \<^verbatim>\<open>nil\<close> once it is used, and a 12-byte nonce.
\<close>

definition decoder_wf :: "clientReply \<Rightarrow> bool" where
  "decoder_wf h \<longleftrightarrow>
     length (cr_serverNonce h) = 12
     \<and> (case cr_aesgcm h of None \<Rightarrow> True | Some key \<Rightarrow> length key = 16)"

text \<open>
  The spec's seed scenarios: a server whose private key is 32 bytes of \<open>0x11\<close>, a client
  that is anonymous or holds the private key of 32 bytes of \<open>0x22\<close>, the payload "hi"
  and the reply "ok". The random source delivers 32 bytes of \<open>0x5A\<close>.
\<close>

definition seed_server :: server where
  "seed_server = \<lparr>ServerPrivateKey = replicate 32 0x11, serverPublicKey = None\<rparr>"

definition seed_server_pub :: bytes where
  "seed_server_pub = 0x18 # replicate 31 0x11"

definition seed_client :: "bytes option \<Rightarrow> client" where
  "seed_client csk = \<lparr>ServerPublicKey = seed_server_pub, ClientPrivateKey = csk,
                       clientPublicKey = None, clientServerPublicKey = None\<rparr>"

definition seed_random :: reader where
  "seed_random = replicate 32 0x5A"

definition payload_hi :: bytes where
  "payload_hi = [0x68, 0x69]"

definition reply_ok :: bytes where
  "reply_ok = [0x6F, 0x6B]"

text \<open>The packets and reply decoders that \<open>PackOutgoing\<close> returns in the scenario.\<close>

definition seed_request_anon :: bytes where
  "seed_request_anon =
     [0x00, 0x00, 0x01, 0x00] @ (0x51 # replicate 31 0x5A) @ [0x68, 0x69]
     @ [0, 0, 0, 0, 0, 0, 0, 0, 0x43, 0x40, 0x42, 0x45, 0x11, 0x11, 0x10, 0x11]"

definition seed_decoder_anon :: clientReply where
  "seed_decoder_anon =
     \<lparr>cr_aesgcm = Some (replicate 16 0x11), cr_dhParam = 0x51 # replicate 31 0x5A,
      cr_serverNonce = replicate 8 0x11 @ [0x52, 0x50, 0x4C, 0x59]\<rparr>"

definition seed_request_auth :: bytes where
  "seed_request_auth =
     [0x00, 0x02, 0x01, 0x00] @ (0x73 # replicate 31 0x78)
     @ (0x2B # replicate 31 0x22) @ (0x58 # replicate 31 0x5A) @ [0x68, 0x69]
     @ [0, 0, 0, 0, 0, 0, 0, 0, 0x43, 0x40, 0x42, 0x45, 0x11, 0x13, 0x10, 0x11]"

definition seed_decoder_auth :: clientReply where
  "seed_decoder_auth =
     \<lparr>cr_aesgcm = Some (replicate 16 0x11), cr_dhParam = 0x73 # replicate 31 0x78,
      cr_serverNonce = replicate 8 0x11 @ [0x52, 0x50, 0x4C, 0x59]\<rparr>"

definition seed_client_auth_after :: client where
  "seed_client_auth_after =
     \<lparr>ServerPublicKey = seed_server_pub, ClientPrivateKey = Some (replicate 32 0x22),
      clientPublicKey = Some (0x2B # replicate 31 0x22),
      clientServerPublicKey = Some (0x3A # replicate 31 0x33)\<rparr>"

text \<open>
  A second request of the scenario, packed when the random source delivers 32 bytes of
  \<open>0x3C\<close>, by the authenticated and by the anonymous client; the reply encoders the
  server returns for them, and the replies to "ok". \<open>seed_reply_anon\<close> is the reply to
  \<open>seed_request_anon\<close>, and \<open>short_auth_request\<close> a request with the CLIENT\_AUTH flag
  whose sealed payload is empty.
\<close>

definition other_random :: reader where
  "other_random = replicate 32 0x3C"

definition other_request_auth :: bytes where
  "other_request_auth =
     [0x00, 0x02, 0x01, 0x00] @ (0x13 # replicate 30 0x1E @ [0x5E])
     @ (0x2B # replicate 31 0x22) @ (0x38 # replicate 30 0x3C @ [0x7C]) @ [0x68, 0x69]
     @ [0, 0, 0, 0, 0, 0, 0, 0, 0x43, 0x40, 0x42, 0x45, 0x11, 0x13, 0x10, 0x11]"

definition other_encoder_auth :: serverReply where
  "other_encoder_auth =
     \<lparr>sr_aesgcm = Some (replicate 16 0x11), sr_hasClientAuth = True,
      sr_dhParam = 0x13 # replicate 30 0x1E @ [0x5E],
      sr_serverNonce = replicate 8 0x11 @ [0x52, 0x50, 0x4C, 0x59]\<rparr>"

definition other_reply_auth :: bytes where
  "other_reply_auth =
     [0x00, 0x03, 0x01, 0x00] @ (0x13 # replicate 30 0x1E @ [0x5E]) @ [0x6F, 0x6B]
     @ [0, 0, 0, 0, 0, 0, 0, 0, 0x43, 0x41, 0x5D, 0x48, 0x11, 0x12, 0x10, 0x11]"

definition other_request_anon :: bytes where
  "other_request_anon =
     [0x00, 0x00, 0x01, 0x00] @ (0x31 # replicate 30 0x3C @ [0x7C]) @ [0x68, 0x69]
     @ [0, 0, 0, 0, 0, 0, 0, 0, 0x43, 0x40, 0x42, 0x45, 0x11, 0x11, 0x10, 0x11]"

definition other_encoder_anon :: serverReply where
  "other_encoder_anon =
     \<lparr>sr_aesgcm = Some (replicate 16 0x11), sr_hasClientAuth = False,
      sr_dhParam = 0x31 # replicate 30 0x3C @ [0x7C],
      sr_serverNonce = replicate 8 0x11 @ [0x52, 0x50, 0x4C, 0x59]\<rparr>"

definition other_reply_anon :: bytes where
  "other_reply_anon =
     [0x00, 0x01, 0x01, 0x00] @ (0x31 # replicate 30 0x3C @ [0x7C]) @ [0x6F, 0x6B]
     @ [0, 0, 0, 0, 0, 0, 0, 0, 0x43, 0x41, 0x5D, 0x48, 0x11, 0x10, 0x10, 0x11]"

definition seed_reply_anon :: bytes where
  "seed_reply_anon =
     [0x00, 0x01, 0x01, 0x00] @ (0x51 # replicate 31 0x5A) @ [0x6F, 0x6B]
     @ [0, 0, 0, 0, 0, 0, 0, 0, 0x43, 0x41, 0x5D, 0x48, 0x11, 0x10, 0x10, 0x11]"

definition short_auth_request :: bytes where
  "short_auth_request =
     [0x00, 0x02, 0x01, 0x00] @ (0x51 # replicate 31 0x5A)
     @ [0, 0, 0, 0, 0, 0, 0, 0, 0x43, 0x40, 0x42, 0x45, 0x11, 0x13, 0x10, 0x11]"

text \<open>
  The reply to \<open>seed_request_anon\<close> with its suite byte changed to \<open>0x02\<close>, and a
  random source that differs from \<open>seed_random\<close> in the low three bits of its first byte.
\<close>

definition suite2_reply :: bytes where
  "suite2_reply = [0x00, 0x01, 0x02, 0x00] @ drop 4 seed_reply_anon"

definition low_bits_random :: reader where
  "low_bits_random = 0x5D # replicate 31 0x5A"

section \<open>Basic facts\<close>

lemma and_then_simps [simp]:
  "and_then (Inl e) f = Inl e"
  "and_then (Inr v) f = f v"
  by (simp_all add: and_then_def)

lemma lift_err_simps [simp]:
  "lift_err (Inl e) = Inl (Err e)"
  "lift_err (Inr v) = Inr v"
  by (simp_all add: lift_err_def)

lemma toy_sha_ok: "sha_ok toy"
  by (simp add: sha_ok_def toy_def toy_sha256_def min_def)

lemma map2_xor_comm:
  fixes a b p :: bytes
  shows "length a = length p \<Longrightarrow> length b = length p \<Longrightarrow>
     map2 (XOR) a (map2 (XOR) b p) = map2 (XOR) b (map2 (XOR) a p)"
proof (induction p arbitrary: a b)
  case Nil
  then show ?case by simp
next
  case (Cons x xs)
  then obtain a0 as b0 bs where "a = a0 # as" "b = b0 # bs"
    by (metis length_Suc_conv)
  with Cons show ?case
    by (simp add: ac_simps)
qed

lemma toy_dh_ok: "dh_ok toy"
  unfolding dh_ok_def toy_def
  by (auto simp: toy_x25519_def map2_xor_comm split: if_splits)

lemma toy_tag_length: "length (toy_tag k n a) = 16"
  by (simp add: toy_tag_def)

lemma toy_aead_ok: "aead_ok toy"
  unfolding aead_ok_def toy_def
  by (simp add: toy_open_def toy_seal_def toy_tag_length)

lemma toy_crypto_ok: "crypto_ok toy"
  by (simp add: crypto_ok_def toy_sha_ok toy_dh_ok toy_aead_ok)

lemma flags_roundtrip:
  fixes f :: "16 word"
  shows "push_bit 8 (ucast (ucast (drop_bit 8 f) :: byte)) OR ucast (ucast f :: byte) = f"
  by (rule bit_word_eqI) (auto simp: bit_simps)

lemma binary_Write_length: "length (binary_Write h) = 4"
  by (simp add: binary_Write_def)

lemma binary_Read_Write: "binary_Read (binary_Write h @ rest) = Inr h"
  by (simp add: binary_Read_def binary_Write_def flags_roundtrip)

lemma io_ReadFull_length: "io_ReadFull r n = (Inr b, r') \<Longrightarrow> length b = n"
  by (auto simp: io_ReadFull_def split: if_splits)

lemma clamp_length: "length (clamp p) = length p"
  by (simp add: clamp_def Let_def)

lemma generateX22519Private_length:
  "generateX22519Private rnd os = (Inr e, rnd', os') \<Longrightarrow> length e = 32"
  by (auto simp: generateX22519Private_def clamp_length
      split: option.splits prod.splits sum.splits dest: io_ReadFull_length)

lemma extend_data_eq:
  "length cpk = 32 \<Longrightarrow> length e = 32 \<Longrightarrow> extend_data cpk e data = cpk @ e @ data"
  by (simp add: extend_data_def Let_def go_copy_def)

lemma PackOutgoing_Inr:
  assumes "PackOutgoing c cl os data = (Inr (pkt, h), cl', os')"
  obtains e flags D S data' key nc ns where
    "generateX22519Private None os = (Inr e, None, os')"
    "request_keys c cl e data = (Inr (flags, D, S, data'), cl')"
    "kdfX25519AESGCM128 c D S = Inr (key, nc, ns)"
    "aes_NewCipher key = Inr key"
    "pkt = binary_Write \<lparr>Flags = flags, CipherSuite = CipherSuiteX25519AESGCM\<rparr> @ D
             @ gcm_seal c key nc data'
                 (binary_Write \<lparr>Flags = flags, CipherSuite = CipherSuiteX25519AESGCM\<rparr>)"
    "h = \<lparr>cr_aesgcm = Some key, cr_dhParam = D, cr_serverNonce = ns\<rparr>"
  using assms
  unfolding PackOutgoing_def
  by (auto simp: generateX22519Private_def and_then_def cipher_NewGCM_def aes_NewCipher_def binary_Write_length Let_def
      split: prod.splits sum.splits if_splits)


lemma request_keys_anon:
  assumes "ClientPrivateKey cl = None"
    and "request_keys c cl e data = (Inr (flags, D, S, data'), cl')"
  shows "flags = 0 \<and> x25519 c e Basepoint = Inr D \<and> x25519 c e (ServerPublicKey cl) = Inr S
         \<and> data' = data \<and> cl' = cl"
  using assms
  by (auto simp: request_keys_def and_then_def lift_err_def split: sum.splits)

lemma request_keys_auth:
  assumes "ClientPrivateKey cl = Some csk"
    and "client_cache_ok c cl"
    and "request_keys c cl e data = (Inr (flags, D, S, data'), cl')"
  shows "\<exists>cpk cs. x25519 c csk Basepoint = Inr cpk \<and> x25519 c csk (ServerPublicKey cl) = Inr cs
           \<and> clientPublicKey cl' = Some cpk \<and> clientServerPublicKey cl' = Some cs
           \<and> ClientPrivateKey cl' = Some csk \<and> ServerPublicKey cl' = ServerPublicKey cl
           \<and> flags = flagsClientAuth \<and> x25519 c e cpk = Inr D \<and> x25519 c e cs = Inr S
           \<and> data' = extend_data cpk e data"
  using assms
  by (auto simp: request_keys_def client_auth_keys_def client_cache_ok_def and_then_def
        lift_err_def nil_bytes_def
      split: sum.splits option.splits prod.splits)

lemma UnpackIncoming_sealed:
  assumes "length D = 32"
    and "f AND flagsReply = 0"
    and "x25519 c (ServerPrivateKey srv) D = Inr S"
    and "kdfX25519AESGCM128 c D S = Inr (key, nc, ns)"
    and "aes_NewCipher key = Inr key"
    and "gcm_open c key nc ct (binary_Write \<lparr>Flags = f, CipherSuite = CipherSuiteX25519AESGCM\<rparr>)
           = Some payload"
  shows "UnpackIncoming c srv
           (binary_Write \<lparr>Flags = f, CipherSuite = CipherSuiteX25519AESGCM\<rparr> @ D @ ct) =
         (let rh = \<lparr>sr_aesgcm = Some key, sr_hasClientAuth = (f AND flagsClientAuth \<noteq> 0),
                    sr_dhParam = D, sr_serverNonce = ns\<rparr>
          in if f AND flagsClientAuth \<noteq> 0
             then and_then (slice payload 0 32) (\<lambda>clientPublicKeyBytes.
                  and_then (slice payload 32 64) (\<lambda>ephemeralKey.
                  and_then (lift_err (x25519 c ephemeralKey clientPublicKeyBytes)) (\<lambda>checkClient.
                    if checkClient \<noteq> D
                    then Inl (Err (PSSSTError ''Client authentication failed''))
                    else and_then (slice_from payload 64) (\<lambda>data.
                           Inr (data, rh, Some clientPublicKeyBytes)))))
             else Inr (payload, rh, None))"
  using assms
  by (simp add: UnpackIncoming_def binary_Read_Write binary_Write_length slice_def slice_from_def
      cipher_NewGCM_def aead_Open_def Let_def)


lemma dh_commute:
  "dh_ok c \<Longrightarrow> x25519 c b P = Inr Q \<Longrightarrow> x25519 c a P = Inr R \<Longrightarrow> x25519 c a Q = x25519 c b R"
  unfolding dh_ok_def by blast

lemma dh_length: "dh_ok c \<Longrightarrow> x25519 c s P = Inr Q \<Longrightarrow> length Q = 32"
  unfolding dh_ok_def by blast

lemma aead_roundtrip:
  "aead_ok c \<Longrightarrow> length k = 16 \<Longrightarrow> length n = 12 \<Longrightarrow>
     gcm_open c k n (gcm_seal c k n p a) a = Some p"
  unfolding aead_ok_def by blast

lemma aead_short:
  "aead_ok c \<Longrightarrow> length k = 16 \<Longrightarrow> length n = 12 \<Longrightarrow> length ct < 16 \<Longrightarrow>
     gcm_open c k n ct a = None"
  unfolding aead_ok_def by blast

lemma kdf_total:
  "sha_ok c \<Longrightarrow>
     \<exists>key nc ns. kdfX25519AESGCM128 c D S = Inr (key, nc, ns)
       \<and> length key = 16 \<and> length nc = 12 \<and> length ns = 12"
  by (simp add: sha_ok_def kdfX25519AESGCM128_def slice_def go_copy_def RQST_def RPLY_def Let_def)

lemma kdf_lengths:
  assumes "sha_ok c" and "kdfX25519AESGCM128 c D S = Inr (key, nc, ns)"
  shows "length key = 16" and "length nc = 12" and "length ns = 12"
  using kdf_total [OF assms(1), of D S] assms(2) by auto

lemma flags_simps [simp]:
  "(0::16 word) AND flagsReply = 0"
  "flagsClientAuth AND flagsReply = 0"
  "flagsClientAuth AND flagsClientAuth \<noteq> 0"
  "flagsReply AND flagsReply \<noteq> 0"
  "flagsReply AND flagsClientAuth = 0"
  "(flagsReply OR flagsClientAuth) AND flagsReply \<noteq> 0"
  "(flagsReply OR flagsClientAuth) AND flagsClientAuth \<noteq> 0"
  "flagsClientAuth \<noteq> 0"
  "flagsReply \<noteq> 0"
  by (simp_all add: flagsReply_def flagsClientAuth_def)

lemma roundtrip_core:
  assumes ok: "crypto_ok c"
    and pk: "x25519 c sk Basepoint = Inr pk"
    and srv: "ServerPrivateKey srv = sk"
    and cl: "ServerPublicKey cl = pk"
    and cache: "client_cache_ok c cl"
    and pack: "PackOutgoing c cl os p = (Inr (pkt, h), cl', os')"
  shows "\<exists>key D ns k.
           UnpackIncoming c srv pkt =
             Inr (p, \<lparr>sr_aesgcm = Some key, sr_hasClientAuth = (ClientPrivateKey cl \<noteq> None),
                      sr_dhParam = D, sr_serverNonce = ns\<rparr>, k)
           \<and> h = \<lparr>cr_aesgcm = Some key, cr_dhParam = D, cr_serverNonce = ns\<rparr>
           \<and> length D = 32 \<and> length key = 16 \<and> length ns = 12
           \<and> (clientPublicKey cl' = None \<longleftrightarrow> ClientPrivateKey cl = None)
           \<and> map_option Inr k = map_option (\<lambda>csk. x25519 c csk Basepoint) (ClientPrivateKey cl)"
proof -
  from ok have dh: "dh_ok c" and aead: "aead_ok c" and sha: "sha_ok c"
    by (simp_all add: crypto_ok_def)
  from pack obtain e flags D S data' key nc ns where
    gen: "generateX22519Private None os = (Inr e, None, os')"
    and rk: "request_keys c cl e p = (Inr (flags, D, S, data'), cl')"
    and kdf: "kdfX25519AESGCM128 c D S = Inr (key, nc, ns)"
    and aes: "aes_NewCipher key = Inr key"
    and pkt: "pkt = binary_Write \<lparr>Flags = flags, CipherSuite = CipherSuiteX25519AESGCM\<rparr> @ D
             @ gcm_seal c key nc data'
                 (binary_Write \<lparr>Flags = flags, CipherSuite = CipherSuiteX25519AESGCM\<rparr>)"
    and h: "h = \<lparr>cr_aesgcm = Some key, cr_dhParam = D, cr_serverNonce = ns\<rparr>"
    by (rule PackOutgoing_Inr)
  have le: "length e = 32"
    using gen by (rule generateX22519Private_length)
  have opn: "gcm_open c key nc
               (gcm_seal c key nc data'
                  (binary_Write \<lparr>Flags = flags, CipherSuite = CipherSuiteX25519AESGCM\<rparr>))
               (binary_Write \<lparr>Flags = flags, CipherSuite = CipherSuiteX25519AESGCM\<rparr>)
             = Some data'"
    using aead kdf_lengths(1,2) [OF sha kdf] by (rule aead_roundtrip)
  note lens = kdf_lengths(1,3) [OF sha kdf]
  show ?thesis
  proof (cases "ClientPrivateKey cl")
    case None
    from request_keys_anon [OF None rk]
    have f: "flags = 0" and eD: "x25519 c e Basepoint = Inr D"
      and eS: "x25519 c e pk = Inr S" and d: "data' = p" and c': "cl' = cl"
      using cl by simp_all
    have lD: "length D = 32"
      using dh eD by (rule dh_length)
    have sS: "x25519 c (ServerPrivateKey srv) D = Inr S"
      using dh_commute [OF dh eD pk] eS srv by simp
    have nil: "clientPublicKey cl = None"
      using cache None by (simp add: client_cache_ok_def split: option.splits)
    have "UnpackIncoming c srv pkt =
            Inr (p, \<lparr>sr_aesgcm = Some key, sr_hasClientAuth = False,
                     sr_dhParam = D, sr_serverNonce = ns\<rparr>, None)"
      unfolding pkt f d
      using UnpackIncoming_sealed [OF lD _ sS kdf aes opn [unfolded f d]] by simp
    then show ?thesis
      using None h lD c' nil lens by simp
  next
    case (Some csk)
    from request_keys_auth [OF Some cache rk] cl
    obtain cpk cs where cpk: "x25519 c csk Basepoint = Inr cpk"
      and cs: "x25519 c csk pk = Inr cs"
      and c': "clientPublicKey cl' = Some cpk"
      and f: "flags = flagsClientAuth"
      and eD: "x25519 c e cpk = Inr D" and eS: "x25519 c e cs = Inr S"
      and d: "data' = extend_data cpk e p"
      by auto
    have lD: "length D = 32"
      using dh eD by (rule dh_length)
    have lc: "length cpk = 32"
      using dh cpk by (rule dh_length)
    have "x25519 c sk cpk = Inr cs"
      using dh_commute [OF dh cpk pk] cs by simp
    then have sS: "x25519 c (ServerPrivateKey srv) D = Inr S"
      using dh_commute [OF dh eD] eS srv by simp
    have d': "data' = cpk @ e @ p"
      using d lc le by (simp add: extend_data_eq)
    have "UnpackIncoming c srv pkt =
            Inr (p, \<lparr>sr_aesgcm = Some key, sr_hasClientAuth = True,
                     sr_dhParam = D, sr_serverNonce = ns\<rparr>, Some cpk)"
      unfolding pkt f d'
      using UnpackIncoming_sealed [OF lD _ sS kdf aes opn [unfolded f d']] lc le eD
      by (simp add: slice_def slice_from_def)
    then show ?thesis
      using Some h lD c' cpk lens by simp
  qed
qed


lemma seed_server_keypair: "x25519 toy (replicate 32 0x11) Basepoint = Inr seed_server_pub"
  by code_simp

lemma seed_pack_anon:
  "PackOutgoing toy (seed_client None) seed_random payload_hi =
     (Inr (seed_request_anon, seed_decoder_anon), seed_client None, [])"
  by code_simp

lemma seed_pack_auth:
  "PackOutgoing toy (seed_client (Some (replicate 32 0x22))) seed_random payload_hi =
     (Inr (seed_request_auth, seed_decoder_auth), seed_client_auth_after, [])"
  by code_simp

lemma seed_client_ok: "client_cache_ok toy (seed_client csk)"
  by (simp add: client_cache_ok_def seed_client_def)

lemma reply_encode:
  "server_replyHandler c \<lparr>sr_aesgcm = Some key, sr_hasClientAuth = auth, sr_dhParam = D,
                          sr_serverNonce = ns\<rparr> r =
     (Inr (binary_Write \<lparr>Flags = (if auth then flagsReply OR flagsClientAuth else flagsReply),
                         CipherSuite = CipherSuiteX25519AESGCM\<rparr> @ D
           @ gcm_seal c key ns r
               (binary_Write \<lparr>Flags = (if auth then flagsReply OR flagsClientAuth else flagsReply),
                              CipherSuite = CipherSuiteX25519AESGCM\<rparr>)),
      \<lparr>sr_aesgcm = None, sr_hasClientAuth = auth, sr_dhParam = D, sr_serverNonce = ns\<rparr>)"
  by (simp add: server_replyHandler_def binary_Write_length Let_def)

lemma reply_decode:
  assumes "length B = 32"
    and "f AND flagsReply \<noteq> 0"
  shows "client_replyHandler c cl \<lparr>cr_aesgcm = Some key, cr_dhParam = D, cr_serverNonce = ns\<rparr>
           (binary_Write \<lparr>Flags = f, CipherSuite = CipherSuiteX25519AESGCM\<rparr> @ B @ ct) =
         (if (clientPublicKey cl = None) \<noteq> (f AND flagsClientAuth = 0)
          then (Inl (Err (PSSSTError ''Reply client auth mismatch'')),
                \<lparr>cr_aesgcm = Some key, cr_dhParam = D, cr_serverNonce = ns\<rparr>)
          else if B \<noteq> D
          then (Inl (Err (PSSSTError ''Request/reply mismatch'')),
                \<lparr>cr_aesgcm = Some key, cr_dhParam = D, cr_serverNonce = ns\<rparr>)
          else (aead_Open c key ns ct
                  (binary_Write \<lparr>Flags = f, CipherSuite = CipherSuiteX25519AESGCM\<rparr>),
                \<lparr>cr_aesgcm = None, cr_dhParam = D, cr_serverNonce = ns\<rparr>))"
  using assms
  by (cases "B = D")
    (simp_all add: client_replyHandler_def binary_Read_Write binary_Write_length slice_def
      slice_from_def)

lemma UnpackIncoming_Inr:
  assumes "UnpackIncoming c srv pkt = Inr (d, sh, k)"
  shows "36 \<le> length pkt \<and> sr_dhParam sh = take 32 (drop 4 pkt) \<and> sr_aesgcm sh \<noteq> None"
  using assms
  unfolding UnpackIncoming_def
  by (auto simp: and_then_def lift_err_def slice_def slice_from_def cipher_NewGCM_def Let_def
      split: sum.splits if_splits prod.splits)

lemma server_replyHandler_Inr:
  assumes "server_replyHandler c sh r = (Inr reply, sh')"
  shows "\<exists>ct. reply = binary_Write \<lparr>Flags = (if sr_hasClientAuth sh
                                          then flagsReply OR flagsClientAuth else flagsReply),
                                   CipherSuite = CipherSuiteX25519AESGCM\<rparr> @ sr_dhParam sh @ ct"
  using assms
  by (auto simp: server_replyHandler_def Let_def split: option.splits)

lemma server_used:
  "sr_aesgcm s = None \<Longrightarrow>
     server_replyHandler c s d = (Inl (Err (PSSSTError ''reply handler already used'')), s)"
  by (simp add: server_replyHandler_def)

lemma server_uses: "sr_aesgcm (snd (server_replyHandler c s d)) = None"
  by (cases "sr_aesgcm s") (simp_all add: server_replyHandler_def Let_def)

lemma server_stays_used:
  "sr_aesgcm s = None \<Longrightarrow> sr_aesgcm (foldl (\<lambda>s d. snd (server_replyHandler c s d)) s ds) = None"
  by (induction ds arbitrary: s) (simp_all add: server_uses)

lemma client_used:
  "cr_aesgcm s = None \<Longrightarrow>
     client_replyHandler c cl s p = (Inl (Err (PSSSTError ''reply handler already used'')), s)"
  by (simp add: client_replyHandler_def)

lemma client_uses:
  assumes "(\<exists>x. fst (client_replyHandler c cl s p) = Inr x)
           \<or> fst (client_replyHandler c cl s p) = Inl (Err ErrOpen)"
  shows "cr_aesgcm (snd (client_replyHandler c cl s p)) = None"
  using assms
  by (auto simp: client_replyHandler_def binary_Read_def slice_def
      split: option.splits sum.splits if_splits)

lemma client_stays_used:
  "cr_aesgcm s = None \<Longrightarrow>
     cr_aesgcm (foldl (\<lambda>s (cl, p). snd (client_replyHandler c cl s p)) s ps) = None"
  by (induction ps arbitrary: s) (auto simp: client_used)

lemma binary_Read_short:
  "length bs < 4 \<Longrightarrow> binary_Read bs = Inl (if bs = [] then EOF else ErrUnexpectedEOF)"
  by (simp add: binary_Read_def)

lemma UnpackIncoming_short_ciphertext:
  assumes "sha_ok c" and "aead_ok c" and "36 \<le> length pkt" and "length pkt < 52"
  shows "\<exists>e. UnpackIncoming c srv pkt = Inl (Err e)"
proof -
  let ?D = "take 32 (drop 4 pkt)"
  have opn: "gcm_open c k n (drop 36 pkt) a = None" if "length k = 16" and "length n = 12"
    for k n a
    using assms that by (intro aead_short) simp_all
  show ?thesis
  proof (cases "x25519 c (ServerPrivateKey srv) ?D")
    case (Inl e)
    then show ?thesis
      using assms(3)
      by (simp add: UnpackIncoming_def binary_Read_def slice_def Let_def)
  next
    case (Inr S)
    from kdf_total [OF assms(1)] obtain key nc ns where
      "kdfX25519AESGCM128 c ?D S = Inr (key, nc, ns)" and "length key = 16"
      and "length nc = 12"
      by blast
    then show ?thesis
      using assms(3) Inr opn [of key nc]
      by (simp add: UnpackIncoming_def binary_Read_def slice_def slice_from_def Let_def
          aes_NewCipher_def cipher_NewGCM_def aead_Open_def)
  qed
qed

lemma client_replyHandler_short_ciphertext:
  assumes "aead_ok c" and "decoder_wf h" and "36 \<le> length pkt" and "length pkt < 52"
  shows "\<exists>e. fst (client_replyHandler c cl h pkt) = Inl (Err e)"
proof (cases "cr_aesgcm h")
  case None
  then show ?thesis
    by (simp add: client_replyHandler_def)
next
  case (Some key)
  then have "length key = 16" and "length (cr_serverNonce h) = 12"
    using assms(2) by (simp_all add: decoder_wf_def)
  then have "gcm_open c key (cr_serverNonce h) (drop 36 pkt) a = None" for a
    using assms by (intro aead_short) simp_all
  then show ?thesis
    using assms(3) Some
    by (simp add: client_replyHandler_def binary_Read_def slice_def slice_from_def
        aead_Open_def)
qed

lemma PackOutgoing_decoder_wf:
  assumes "sha_ok c" and "PackOutgoing c cl os data = (Inr (pkt, h), cl', os')"
  shows "decoder_wf h"
proof -
  from assms(2) obtain D S key nc ns where
    "kdfX25519AESGCM128 c D S = Inr (key, nc, ns)"
    and "h = \<lparr>cr_aesgcm = Some key, cr_dhParam = D, cr_serverNonce = ns\<rparr>"
    by (rule PackOutgoing_Inr)
  then show ?thesis
    using kdf_lengths [OF assms(1)] by (simp add: decoder_wf_def)
qed

lemma reply_bit:
  fixes b0 b1 :: byte
  shows "((push_bit 8 (ucast b0) OR ucast b1) AND flagsReply \<noteq> (0::16 word)) = bit b1 0"
proof -
  have "(push_bit 8 (ucast b0) OR ucast b1 :: 16 word) AND 1 = of_bool (bit b1 0)"
    by (rule bit_word_eqI) (auto simp: bit_simps)
  then show ?thesis
    by (simp add: flagsReply_def)
qed

lemma UnpackIncoming_reply:
  "f AND flagsReply \<noteq> 0 \<Longrightarrow>
     UnpackIncoming c srv (binary_Write \<lparr>Flags = f, CipherSuite = s\<rparr> @ rest) =
       Inl (Err (PSSSTError ''Packet is a reply''))"
  by (simp add: UnpackIncoming_def binary_Read_Write)

lemma generateX22519Private_nil:
  "32 \<le> length os \<Longrightarrow>
     generateX22519Private None os = (Inr (clamp (take 32 os)), None, drop 32 os)"
  by (simp add: generateX22519Private_def io_ReadFull_def)

lemma generateX22519Private_reader:
  "32 \<le> length rd \<Longrightarrow>
     generateX22519Private (Some rd) os = (Inr (clamp (take 32 rd)), Some (drop 32 rd), os)"
  by (simp add: generateX22519Private_def io_ReadFull_def)

lemma PackOutgoing_reads:
  assumes "fst (PackOutgoing c cl os data) = Inr (pkt, h)"
  shows "32 \<le> length os"
  using assms
  by (auto simp: PackOutgoing_def generateX22519Private_def io_ReadFull_def
      split: prod.splits sum.splits if_splits)

text \<open>When \<open>PackOutgoing\<close> returns a packet.\<close>

lemma PackOutgoing_anon_succeeds:
  assumes "sha_ok c" and "32 \<le> length os" and "ClientPrivateKey cl = None"
    and "x25519 c (clamp (take 32 os)) Basepoint = Inr D"
    and "x25519 c (clamp (take 32 os)) (ServerPublicKey cl) = Inr S"
  shows "\<exists>pkt h. PackOutgoing c cl os data = (Inr (pkt, h), cl, drop 32 os)"
proof -
  from kdf_total [OF assms(1), of D S] obtain key nc ns where
    "kdfX25519AESGCM128 c D S = Inr (key, nc, ns)" and "length key = 16"
    by blast
  then show ?thesis
    using assms(2-5)
    by (simp add: PackOutgoing_def generateX22519Private_nil request_keys_def aes_NewCipher_def
        cipher_NewGCM_def Let_def)
qed

lemma PackOutgoing_auth_succeeds:
  assumes "sha_ok c" and "32 \<le> length os" and "ClientPrivateKey cl = Some csk"
    and "clientPublicKey cl = None"
    and "x25519 c csk Basepoint = Inr cpk"
    and "x25519 c csk (ServerPublicKey cl) = Inr cs"
    and "x25519 c (clamp (take 32 os)) cpk = Inr D"
    and "x25519 c (clamp (take 32 os)) cs = Inr S"
  shows "\<exists>pkt h. PackOutgoing c cl os data =
           (Inr (pkt, h), cl\<lparr>clientPublicKey := Some cpk, clientServerPublicKey := Some cs\<rparr>,
            drop 32 os)"
proof -
  from kdf_total [OF assms(1), of D S] obtain key nc ns where
    "kdfX25519AESGCM128 c D S = Inr (key, nc, ns)" and "length key = 16"
    by blast
  then show ?thesis
    using assms(2-8)
    by (simp add: PackOutgoing_def generateX22519Private_nil request_keys_def
        client_auth_keys_def nil_bytes_def aes_NewCipher_def cipher_NewGCM_def Let_def)
qed

lemma UnpackIncoming_short_auth_payload:
  assumes "binary_Read pkt = Inr hdr"
    and "Flags hdr AND flagsReply = 0"
    and "Flags hdr AND flagsClientAuth \<noteq> 0"
    and "CipherSuite hdr = CipherSuiteX25519AESGCM"
    and "slice pkt 4 36 = Inr D"
    and "x25519 c (ServerPrivateKey srv) D = Inr S"
    and "kdfX25519AESGCM128 c D S = Inr (key, nc, ns)"
    and "aes_NewCipher key = Inr key"
    and "gcm_open c key nc (drop 36 pkt) (take 4 pkt) = Some payload"
    and "length payload < 64"
  shows "UnpackIncoming c srv pkt = Inl Panic"
proof -
  have "36 \<le> length pkt"
    using assms(5) by (simp add: slice_def split: if_splits)
  then show ?thesis
    using assms
    by (simp add: UnpackIncoming_def slice_def slice_from_def cipher_NewGCM_def aead_Open_def
        Let_def and_then_def)
qed

lemma client_unconsumed:
  assumes "\<forall>x. fst (client_replyHandler c cl s p) \<noteq> Inr x"
    and "fst (client_replyHandler c cl s p) \<noteq> Inl (Err ErrOpen)"
  shows "snd (client_replyHandler c cl s p) = s"
  using assms
  by (auto simp: client_replyHandler_def slice_def slice_from_def aead_Open_def
      split: option.splits sum.splits if_splits)

lemma client_rejections:
  assumes "cr_aesgcm s \<noteq> None"
  shows "(length p < 4 \<longrightarrow>
            client_replyHandler c cl s p =
              (Inl (Err (if p = [] then EOF else ErrUnexpectedEOF)), s))
       \<and> (binary_Read p = Inr hdr \<and> Flags hdr AND flagsReply = 0 \<longrightarrow>
            client_replyHandler c cl s p = (Inl (Err (PSSSTError ''Packet is not a reply'')), s))
       \<and> (binary_Read p = Inr hdr \<and> Flags hdr AND flagsReply \<noteq> 0
            \<and> (clientPublicKey cl = None) \<noteq> (Flags hdr AND flagsClientAuth = 0) \<longrightarrow>
            client_replyHandler c cl s p =
              (Inl (Err (PSSSTError ''Reply client auth mismatch'')), s))
       \<and> (binary_Read p = Inr hdr \<and> Flags hdr AND flagsReply \<noteq> 0
            \<and> (clientPublicKey cl = None) = (Flags hdr AND flagsClientAuth = 0)
            \<and> CipherSuite hdr \<noteq> CipherSuiteX25519AESGCM \<longrightarrow>
            client_replyHandler c cl s p =
              (Inl (Err (PSSSTError ''Unsuported cipher suite'')), s))
       \<and> (binary_Read p = Inr hdr \<and> Flags hdr AND flagsReply \<noteq> 0
            \<and> (clientPublicKey cl = None) = (Flags hdr AND flagsClientAuth = 0)
            \<and> CipherSuite hdr = CipherSuiteX25519AESGCM
            \<and> 36 \<le> length p \<and> take 32 (drop 4 p) \<noteq> cr_dhParam s \<longrightarrow>
            client_replyHandler c cl s p =
              (Inl (Err (PSSSTError ''Request/reply mismatch'')), s))"
  using assms
  by (auto simp: client_replyHandler_def binary_Read_short slice_def)

lemma PackOutgoing_clamp:
  assumes "32 \<le> length os1" and "32 \<le> length os2"
    and "clamp (take 32 os1) = clamp (take 32 os2)"
  shows "fst (PackOutgoing c cl os1 data) = fst (PackOutgoing c cl os2 data)"
  using assms
  by (simp add: PackOutgoing_def generateX22519Private_nil split: prod.splits sum.splits)

lemma PackOutgoing_dhParam:
  assumes "PackOutgoing c cl os data = (Inr (pkt, h), cl', os')"
  shows "32 \<le> length os \<and> os' = drop 32 os
         \<and> x25519 c (clamp (take 32 os))
              (case ClientPrivateKey cl of None \<Rightarrow> Basepoint
               | Some csk \<Rightarrow> nil_bytes (clientPublicKey cl'))
            = Inr (cr_dhParam h)"
proof -
  have l: "32 \<le> length os"
    using assms PackOutgoing_reads [of c cl os data pkt h] by simp
  from assms obtain e flags D S data' key nc ns where
    gen: "generateX22519Private None os = (Inr e, None, os')"
    and rk: "request_keys c cl e data = (Inr (flags, D, S, data'), cl')"
    and h: "h = \<lparr>cr_aesgcm = Some key, cr_dhParam = D, cr_serverNonce = ns\<rparr>"
    by (rule PackOutgoing_Inr)
  have e: "e = clamp (take 32 os)" and os': "os' = drop 32 os"
    using gen generateX22519Private_nil [OF l] by simp_all
  have "x25519 c e (case ClientPrivateKey cl of None \<Rightarrow> Basepoint
               | Some csk \<Rightarrow> nil_bytes (clientPublicKey cl')) = Inr D"
    using rk
    by (auto simp: request_keys_def and_then_def lift_err_def
        split: option.splits sum.splits prod.splits)
  then show ?thesis
    using l e os' h by simp
qed

section \<open>The claims\<close>

text \<open>
  C1. For every server key pair \<open>(sk, pk)\<close> and every payload \<open>p\<close>, a request packed by
  a client context that holds \<open>pk\<close> is unpacked, by a server context that holds \<open>sk\<close>, to
  the plaintext \<open>p\<close>. The client public key returned is absent when the client context
  holds no private key, and is \<open>X25519(csk, Basepoint)\<close> when it holds the private key
  \<open>csk\<close>.
\<close>

theorem C1_request_roundtrip:
  assumes "crypto_ok c"
    and "x25519 c sk Basepoint = Inr pk"
    and "ServerPrivateKey srv = sk"
    and "ServerPublicKey cl = pk"
    and "client_cache_ok c cl"
    and "PackOutgoing c cl os p = (Inr (pkt, h), cl', os')"
  shows "\<exists>sh k. UnpackIncoming c srv pkt = Inr (p, sh, k)
           \<and> map_option Inr k = map_option (\<lambda>csk. x25519 c csk Basepoint) (ClientPrivateKey cl)"
  using roundtrip_core [OF assms] by blast

theorem C1_request_roundtrip_witness:
  "\<exists>sh k. UnpackIncoming toy seed_server seed_request_auth = Inr (payload_hi, sh, k)
     \<and> map_option Inr k = Some (x25519 toy (replicate 32 0x22) Basepoint)"
proof -
  have srv: "ServerPrivateKey seed_server = replicate 32 0x11"
    by (simp add: seed_server_def)
  have cl: "ServerPublicKey (seed_client (Some (replicate 32 0x22))) = seed_server_pub"
    by (simp add: seed_client_def)
  show ?thesis
    using C1_request_roundtrip [OF toy_crypto_ok seed_server_keypair srv cl seed_client_ok
        seed_pack_auth]
    by (simp add: seed_client_def)
qed

text \<open>
  C2. For every request, anonymous or client-authenticated, and every reply payload \<open>r\<close>:
  the server unpacks the request, its reply encoder applied to \<open>r\<close> returns a packet, and
  the reply decoder of that request decodes this packet to exactly \<open>r\<close>.
\<close>

theorem C2_reply_roundtrip:
  assumes "crypto_ok c"
    and "x25519 c sk Basepoint = Inr pk"
    and "ServerPrivateKey srv = sk"
    and "ServerPublicKey cl = pk"
    and "client_cache_ok c cl"
    and "PackOutgoing c cl os p = (Inr (pkt, h), cl', os')"
  shows "\<exists>d sh k. UnpackIncoming c srv pkt = Inr (d, sh, k)
           \<and> (\<forall>r. \<exists>reply sh'. server_replyHandler c sh r = (Inr reply, sh')
                  \<and> fst (client_replyHandler c cl' h reply) = Inr r)"
proof -
  from roundtrip_core [OF assms] obtain key D ns k where
    u: "UnpackIncoming c srv pkt =
          Inr (p, \<lparr>sr_aesgcm = Some key, sr_hasClientAuth = (ClientPrivateKey cl \<noteq> None),
                   sr_dhParam = D, sr_serverNonce = ns\<rparr>, k)"
    and h: "h = \<lparr>cr_aesgcm = Some key, cr_dhParam = D, cr_serverNonce = ns\<rparr>"
    and lD: "length D = 32" and lk: "length key = 16" and ln: "length ns = 12"
    and mode: "clientPublicKey cl' = None \<longleftrightarrow> ClientPrivateKey cl = None"
    by (elim exE conjE) (rule that)
  from assms(1) have aead: "aead_ok c"
    by (simp add: crypto_ok_def)
  let ?sh = "\<lparr>sr_aesgcm = Some key, sr_hasClientAuth = (ClientPrivateKey cl \<noteq> None),
               sr_dhParam = D, sr_serverNonce = ns\<rparr>"
  have "\<exists>reply sh'. server_replyHandler c ?sh r = (Inr reply, sh')
          \<and> fst (client_replyHandler c cl' h reply) = Inr r" for r
    unfolding reply_encode h
    using lD mode aead_roundtrip [OF aead lk ln]
    by (simp add: reply_decode aead_Open_def)
  with u show ?thesis
    by blast
qed

theorem C2_reply_roundtrip_witness:
  "\<exists>d sh k. UnpackIncoming toy seed_server seed_request_anon = Inr (d, sh, k)
     \<and> (\<forall>r. \<exists>reply sh'. server_replyHandler toy sh r = (Inr reply, sh')
            \<and> fst (client_replyHandler toy (seed_client None) seed_decoder_anon reply) = Inr r)"
proof -
  have srv: "ServerPrivateKey seed_server = replicate 32 0x11"
    by (simp add: seed_server_def)
  have cl: "ServerPublicKey (seed_client None) = seed_server_pub"
    by (simp add: seed_client_def)
  show ?thesis
    by (rule C2_reply_roundtrip [OF toy_crypto_ok seed_server_keypair srv cl seed_client_ok
        seed_pack_anon])
qed


text \<open>
  C3 (as amended). Take a request \<open>R1\<close> packed by \<open>PackOutgoing\<close> and a request \<open>R2\<close>
  that the server unpacked, whose \<open>dh_param\<close> fields (bytes 4 to 36) differ. The reply
  that the server's encoder makes for \<open>R2\<close>, given to the reply decoder of \<open>R1\<close>, is
  never decoded: the decoder returns "Reply client auth mismatch" when the reply's
  CLIENT\_AUTH flag is not the one the decoder expects, and "Request/reply mismatch"
  otherwise. The decoder is not consumed.
\<close>

theorem C3_reply_binding:
  assumes "dh_ok c"
    and "PackOutgoing c cl1 os1 p1 = (Inr (pkt1, h1), cl1', os1')"
    and "UnpackIncoming c srv pkt2 = Inr (d2, sh2, k2)"
    and "server_replyHandler c sh2 r = (Inr reply, sh2')"
    and "take 32 (drop 4 pkt1) \<noteq> take 32 (drop 4 pkt2)"
  shows "client_replyHandler c cl h1 reply =
           (Inl (Err (PSSSTError
              (if (clientPublicKey cl = None) = sr_hasClientAuth sh2
               then ''Reply client auth mismatch'' else ''Request/reply mismatch''))), h1)"
proof -
  from assms(2) obtain e flags D S data' key nc ns where
    rk: "request_keys c cl1 e p1 = (Inr (flags, D, S, data'), cl1')"
    and pkt1: "pkt1 = binary_Write \<lparr>Flags = flags, CipherSuite = CipherSuiteX25519AESGCM\<rparr> @ D
             @ gcm_seal c key nc data'
                 (binary_Write \<lparr>Flags = flags, CipherSuite = CipherSuiteX25519AESGCM\<rparr>)"
    and h1: "h1 = \<lparr>cr_aesgcm = Some key, cr_dhParam = D, cr_serverNonce = ns\<rparr>"
    by (rule PackOutgoing_Inr)
  have "\<exists>s P. x25519 c s P = Inr D"
    using rk
    by (auto simp: request_keys_def and_then_def lift_err_def split: sum.splits option.splits prod.splits)
  then have lD: "length D = 32"
    using assms(1) by (auto dest: dh_length)
  have D: "take 32 (drop 4 pkt1) = D"
    using lD by (simp add: pkt1 binary_Write_length)
  from UnpackIncoming_Inr [OF assms(3)]
  have l2: "length (sr_dhParam sh2) = 32" and B: "sr_dhParam sh2 = take 32 (drop 4 pkt2)"
    by auto
  from server_replyHandler_Inr [OF assms(4)] obtain ct where
    reply: "reply = binary_Write \<lparr>Flags = (if sr_hasClientAuth sh2
                                          then flagsReply OR flagsClientAuth else flagsReply),
                                   CipherSuite = CipherSuiteX25519AESGCM\<rparr> @ sr_dhParam sh2 @ ct"
    by blast
  have ne: "sr_dhParam sh2 \<noteq> D"
    using assms(5) D B by simp
  show ?thesis
    unfolding reply h1 using ne l2
    by (simp add: reply_decode)
qed

theorem C3_reply_binding_witness:
  "client_replyHandler toy (seed_client None) seed_decoder_anon other_reply_anon =
     (Inl (Err (PSSSTError ''Request/reply mismatch'')), seed_decoder_anon)"
proof -
  have u: "UnpackIncoming toy seed_server other_request_anon =
             Inr (payload_hi, other_encoder_anon, None)"
    by code_simp
  have r: "server_replyHandler toy other_encoder_anon reply_ok =
             (Inr other_reply_anon, other_encoder_anon\<lparr>sr_aesgcm := None\<rparr>)"
    by code_simp
  have d: "take 32 (drop 4 seed_request_anon) \<noteq> take 32 (drop 4 other_request_anon)"
    by code_simp
  show ?thesis
    using C3_reply_binding [OF toy_dh_ok seed_pack_anon u r d, of "seed_client None"]
    by (simp add: seed_client_def other_encoder_anon_def)
qed

text \<open>
  C3 as stated fails: with an anonymous request \<open>R1\<close> and a client-authenticated request
  \<open>R2\<close>, packed with distinct ephemeral scalars, the reply to \<open>R2\<close> given to the decoder
  of \<open>R1\<close> is rejected by the CLIENT\_AUTH check of line 162, which comes before the
  binding check of line 170.
\<close>

theorem C3_mixed_modes_counterexample:
  "PackOutgoing toy (seed_client None) seed_random payload_hi =
     (Inr (seed_request_anon, seed_decoder_anon), seed_client None, [])
   \<and> PackOutgoing toy (seed_client (Some (replicate 32 0x22))) other_random payload_hi =
       (Inr (other_request_auth,
             \<lparr>cr_aesgcm = Some (replicate 16 0x11),
              cr_dhParam = 0x13 # replicate 30 0x1E @ [0x5E],
              cr_serverNonce = replicate 8 0x11 @ [0x52, 0x50, 0x4C, 0x59]\<rparr>),
        seed_client_auth_after, [])
   \<and> fst (generateX22519Private None seed_random) \<noteq> fst (generateX22519Private None other_random)
   \<and> UnpackIncoming toy seed_server other_request_auth =
       Inr (payload_hi, other_encoder_auth, Some (0x2B # replicate 31 0x22))
   \<and> fst (server_replyHandler toy other_encoder_auth reply_ok) = Inr other_reply_auth
   \<and> client_replyHandler toy (seed_client None) seed_decoder_anon other_reply_auth =
       (Inl (Err (PSSSTError ''Reply client auth mismatch'')), seed_decoder_anon)"
  by code_simp

text \<open>
  C4 (as amended). After a first invocation of the server's reply encoder, whatever its
  outcome, every later invocation fails with "reply handler already used". The client's
  reply decoder is consumed only by an invocation that reaches \<^verbatim>\<open>Open\<close>: after an
  invocation that returned a plaintext or the authentication failure, every later
  invocation fails with "reply handler already used"; an invocation with any other
  outcome leaves the decoder as it was, and an unused decoder that rejects a packet at
  header parsing, at the REPLY, CLIENT\_AUTH or suite check or at the binding check
  returns an error and stays usable.
\<close>

theorem C4_one_shot:
  "fst (server_replyHandler c
          (foldl (\<lambda>s d. snd (server_replyHandler c s d))
             (snd (server_replyHandler c sh d0)) ds) d)
     = Inl (Err (PSSSTError ''reply handler already used''))
   \<and> ((\<exists>x. fst (client_replyHandler c cl0 h p0) = Inr x)
          \<or> fst (client_replyHandler c cl0 h p0) = Inl (Err ErrOpen) \<longrightarrow>
        fst (client_replyHandler c cl
               (foldl (\<lambda>s (cl, p). snd (client_replyHandler c cl s p))
                  (snd (client_replyHandler c cl0 h p0)) ps) p)
          = Inl (Err (PSSSTError ''reply handler already used'')))
   \<and> ((\<forall>x. fst (client_replyHandler c cl1 h1 p1) \<noteq> Inr x)
          \<and> fst (client_replyHandler c cl1 h1 p1) \<noteq> Inl (Err ErrOpen) \<longrightarrow>
        snd (client_replyHandler c cl1 h1 p1) = h1)
   \<and> (cr_aesgcm h2 \<noteq> None
          \<and> (length p2 < 4
              \<or> (\<exists>hdr. binary_Read p2 = Inr hdr
                    \<and> (Flags hdr AND flagsReply = 0
                        \<or> (clientPublicKey cl2 = None) \<noteq> (Flags hdr AND flagsClientAuth = 0)
                        \<or> CipherSuite hdr \<noteq> CipherSuiteX25519AESGCM
                        \<or> 36 \<le> length p2 \<and> take 32 (drop 4 p2) \<noteq> cr_dhParam h2))) \<longrightarrow>
        (\<exists>e. e \<noteq> ErrOpen \<and> client_replyHandler c cl2 h2 p2 = (Inl (Err e), h2)))"
proof (intro conjI impI)
  show "fst (server_replyHandler c
          (foldl (\<lambda>s d. snd (server_replyHandler c s d))
             (snd (server_replyHandler c sh d0)) ds) d)
     = Inl (Err (PSSSTError ''reply handler already used''))"
    by (simp add: server_used server_stays_used server_uses)
next
  assume "(\<exists>x. fst (client_replyHandler c cl0 h p0) = Inr x)
          \<or> fst (client_replyHandler c cl0 h p0) = Inl (Err ErrOpen)"
  then show "fst (client_replyHandler c cl
               (foldl (\<lambda>s (cl, p). snd (client_replyHandler c cl s p))
                  (snd (client_replyHandler c cl0 h p0)) ps) p)
          = Inl (Err (PSSSTError ''reply handler already used''))"
    by (simp add: client_used client_stays_used client_uses)
next
  assume "(\<forall>x. fst (client_replyHandler c cl1 h1 p1) \<noteq> Inr x)
          \<and> fst (client_replyHandler c cl1 h1 p1) \<noteq> Inl (Err ErrOpen)"
  then show "snd (client_replyHandler c cl1 h1 p1) = h1"
    by (simp add: client_unconsumed)
next
  assume a: "cr_aesgcm h2 \<noteq> None
          \<and> (length p2 < 4
              \<or> (\<exists>hdr. binary_Read p2 = Inr hdr
                    \<and> (Flags hdr AND flagsReply = 0
                        \<or> (clientPublicKey cl2 = None) \<noteq> (Flags hdr AND flagsClientAuth = 0)
                        \<or> CipherSuite hdr \<noteq> CipherSuiteX25519AESGCM
                        \<or> 36 \<le> length p2 \<and> take 32 (drop 4 p2) \<noteq> cr_dhParam h2)))"
  then have u: "cr_aesgcm h2 \<noteq> None"
    by simp
  show "\<exists>e. e \<noteq> ErrOpen \<and> client_replyHandler c cl2 h2 p2 = (Inl (Err e), h2)"
  proof (cases "length p2 < 4")
    case True
    then show ?thesis
      using client_rejections [OF u, of p2 c cl2] by auto
  next
    case False
    with a obtain hdr where r: "binary_Read p2 = Inr hdr"
      and d: "Flags hdr AND flagsReply = 0
                \<or> (clientPublicKey cl2 = None) \<noteq> (Flags hdr AND flagsClientAuth = 0)
                \<or> CipherSuite hdr \<noteq> CipherSuiteX25519AESGCM
                \<or> 36 \<le> length p2 \<and> take 32 (drop 4 p2) \<noteq> cr_dhParam h2"
      by blast
    show ?thesis
    proof (cases "Flags hdr AND flagsReply = 0")
      case True
      then show ?thesis
        using client_rejections [OF u, of p2 c cl2 hdr] r by auto
    next
      case nr: False
      show ?thesis
      proof (cases "(clientPublicKey cl2 = None) \<noteq> (Flags hdr AND flagsClientAuth = 0)")
        case True
        then show ?thesis
          using client_rejections [OF u, of p2 c cl2 hdr] r nr by auto
      next
        case am: False
        show ?thesis
        proof (cases "CipherSuite hdr \<noteq> CipherSuiteX25519AESGCM")
          case True
          then show ?thesis
            using client_rejections [OF u, of p2 c cl2 hdr] r nr am by auto
        next
          case False
          then show ?thesis
            using client_rejections [OF u, of p2 c cl2 hdr] r nr am d by auto
        qed
      qed
    qed
  qed
qed

theorem C4_one_shot_witness:
  "fst (server_replyHandler toy
          (foldl (\<lambda>s d. snd (server_replyHandler toy s d))
             (snd (server_replyHandler toy other_encoder_anon reply_ok)) [payload_hi]) reply_ok)
     = Inl (Err (PSSSTError ''reply handler already used''))
   \<and> fst (client_replyHandler toy (seed_client None)
            (foldl (\<lambda>s (cl, p). snd (client_replyHandler toy cl s p))
               (snd (client_replyHandler toy (seed_client None) seed_decoder_anon seed_reply_anon))
               [(seed_client None, seed_request_anon)]) seed_reply_anon)
       = Inl (Err (PSSSTError ''reply handler already used''))
   \<and> snd (client_replyHandler toy (seed_client None) seed_decoder_anon seed_request_anon)
       = seed_decoder_anon
   \<and> (\<exists>e. e \<noteq> ErrOpen
          \<and> client_replyHandler toy (seed_client None) seed_decoder_anon suite2_reply
              = (Inl (Err e), seed_decoder_anon))"
proof -
  have a: "fst (client_replyHandler toy (seed_client None) seed_decoder_anon seed_reply_anon)
          = Inr reply_ok"
    by code_simp
  have b: "fst (client_replyHandler toy (seed_client None) seed_decoder_anon seed_request_anon)
          = Inl (Err (PSSSTError ''Packet is not a reply''))"
    by code_simp
  have d: "cr_aesgcm seed_decoder_anon \<noteq> None"
    by (simp add: seed_decoder_anon_def)
  have r: "binary_Read suite2_reply = Inr \<lparr>Flags = 1, CipherSuite = 2\<rparr>"
    by code_simp
  have s: "CipherSuite \<lparr>Flags = 1, CipherSuite = 2\<rparr> \<noteq> CipherSuiteX25519AESGCM"
    by (simp add: CipherSuiteX25519AESGCM_def)
  note t = C4_one_shot [where c = toy and sh = other_encoder_anon and ?d0.0 = reply_ok
      and ds = "[payload_hi]" and d = reply_ok and ?cl0.0 = "seed_client None"
      and h = seed_decoder_anon and ?p0.0 = seed_reply_anon and cl = "seed_client None"
      and ps = "[(seed_client None, seed_request_anon)]" and p = seed_reply_anon
      and ?cl1.0 = "seed_client None" and ?h1.0 = seed_decoder_anon
      and ?p1.0 = seed_request_anon and ?cl2.0 = "seed_client None"
      and ?h2.0 = seed_decoder_anon and ?p2.0 = suite2_reply]
  from t have 1: "fst (server_replyHandler toy
          (foldl (\<lambda>s d. snd (server_replyHandler toy s d))
             (snd (server_replyHandler toy other_encoder_anon reply_ok)) [payload_hi]) reply_ok)
     = Inl (Err (PSSSTError ''reply handler already used''))"
    by (rule conjunct1)
  from t a have 2: "fst (client_replyHandler toy (seed_client None)
            (foldl (\<lambda>s (cl, p). snd (client_replyHandler toy cl s p))
               (snd (client_replyHandler toy (seed_client None) seed_decoder_anon seed_reply_anon))
               [(seed_client None, seed_request_anon)]) seed_reply_anon)
       = Inl (Err (PSSSTError ''reply handler already used''))"
    by blast
  from t b have 3: "snd (client_replyHandler toy (seed_client None) seed_decoder_anon
                          seed_request_anon) = seed_decoder_anon"
    by simp
  from t d r s have 4: "\<exists>e. e \<noteq> ErrOpen
          \<and> client_replyHandler toy (seed_client None) seed_decoder_anon suite2_reply
              = (Inl (Err e), seed_decoder_anon)"
    by blast
  from 1 2 3 4 show ?thesis
    by (intro conjI)
qed

text \<open>
  C4 as stated fails: a first invocation of the reply decoder that is rejected by a
  header check returns before line 176 and leaves the decoder usable; a second invocation
  with the reply then decodes it.
\<close>

theorem C4_rejected_reply_counterexample:
  "client_replyHandler toy (seed_client None) seed_decoder_anon seed_request_anon =
     (Inl (Err (PSSSTError ''Packet is not a reply'')), seed_decoder_anon)
   \<and> fst (client_replyHandler toy (seed_client None)
            (snd (client_replyHandler toy (seed_client None) seed_decoder_anon seed_request_anon))
            seed_reply_anon) = Inr reply_ok"
  by code_simp

text \<open>
  C5 (as amended). An input shorter than 4 bytes is rejected by the header parser, with
  \<^verbatim>\<open>io.EOF\<close> or \<^verbatim>\<open>io.ErrUnexpectedEOF\<close>, by \<open>UnpackIncoming\<close> and by an unused
  reply decoder, whatever the primitives are. An input of 36 to 51 bytes (its ciphertext
  section is shorter than the tag) always makes \<open>UnpackIncoming\<close> and a reply decoder
  that \<open>PackOutgoing\<close> returned give back an error, never a result and never a panic.
\<close>

theorem C5_short_packets:
  "(length pkt < 4 \<longrightarrow>
      UnpackIncoming c srv pkt = Inl (Err (if pkt = [] then EOF else ErrUnexpectedEOF))
      \<and> (cr_aesgcm h \<noteq> None \<longrightarrow>
           client_replyHandler c cl h pkt =
             (Inl (Err (if pkt = [] then EOF else ErrUnexpectedEOF)), h)))
   \<and> (sha_ok c \<and> aead_ok c \<and> decoder_wf h \<and> 36 \<le> length pkt' \<and> length pkt' < 52 \<longrightarrow>
        (\<exists>e. UnpackIncoming c srv pkt' = Inl (Err e))
        \<and> (\<exists>e. fst (client_replyHandler c cl h pkt') = Inl (Err e)))"
proof (intro conjI impI)
  assume "length pkt < 4"
  then show "UnpackIncoming c srv pkt = Inl (Err (if pkt = [] then EOF else ErrUnexpectedEOF))"
    by (simp add: UnpackIncoming_def binary_Read_short)
next
  assume "length pkt < 4" and "cr_aesgcm h \<noteq> None"
  then show "client_replyHandler c cl h pkt =
               (Inl (Err (if pkt = [] then EOF else ErrUnexpectedEOF)), h)"
    by (auto simp: client_replyHandler_def binary_Read_short)
next
  assume "sha_ok c \<and> aead_ok c \<and> decoder_wf h \<and> 36 \<le> length pkt' \<and> length pkt' < 52"
  then show "\<exists>e. UnpackIncoming c srv pkt' = Inl (Err e)"
    by (simp add: UnpackIncoming_short_ciphertext)
next
  assume "sha_ok c \<and> aead_ok c \<and> decoder_wf h \<and> 36 \<le> length pkt' \<and> length pkt' < 52"
  then show "\<exists>e. fst (client_replyHandler c cl h pkt') = Inl (Err e)"
    by (simp add: client_replyHandler_short_ciphertext)
qed

theorem C5_short_packets_witness:
  "UnpackIncoming toy seed_server [0x00, 0x00, 0x01] = Inl (Err ErrUnexpectedEOF)
   \<and> client_replyHandler toy (seed_client None) seed_decoder_anon [0x00, 0x00, 0x01] =
       (Inl (Err ErrUnexpectedEOF), seed_decoder_anon)
   \<and> (\<exists>e. UnpackIncoming toy seed_server (take 51 seed_request_anon) = Inl (Err e))
   \<and> (\<exists>e. fst (client_replyHandler toy (seed_client None) seed_decoder_anon
                  (take 51 seed_request_anon)) = Inl (Err e))"
proof -
  have l: "length (take 51 seed_request_anon) = 51"
    by (simp add: seed_request_anon_def)
  have h: "cr_aesgcm seed_decoder_anon \<noteq> None" "decoder_wf seed_decoder_anon"
    by (simp_all add: seed_decoder_anon_def decoder_wf_def)
  show ?thesis
    using C5_short_packets [of "[0x00, 0x00, 0x01]" toy seed_server seed_decoder_anon
        "seed_client None" "take 51 seed_request_anon"]
      toy_sha_ok toy_aead_ok l h
    by simp
qed

text \<open>
  C5 as stated fails: a 4-byte request header alone makes \<open>UnpackIncoming\<close> panic on
  \<^verbatim>\<open>packetBytes[4:36]\<close>, a 4-byte reply header makes the reply decoder panic on
  \<^verbatim>\<open>replyPacketBytes[4:36]\<close>, and the first 40 bytes of a request are rejected by
  \<^verbatim>\<open>Open\<close>, that is after the Diffie-Hellman and key derivation steps.
\<close>

theorem C5_short_packets_counterexample:
  "UnpackIncoming toy seed_server [0x00, 0x00, 0x01, 0x00] = Inl Panic
   \<and> fst (client_replyHandler toy (seed_client None) seed_decoder_anon [0x00, 0x01, 0x01, 0x00])
       = Inl Panic
   \<and> length (take 40 seed_request_anon) = 40
   \<and> UnpackIncoming toy seed_server (take 40 seed_request_anon) = Inl (Err ErrOpen)"
  by code_simp

text \<open>
  C6 (as amended). For every packet of at least 4 bytes whose cipher-suite byte is not
  \<open>0x01\<close>, \<open>UnpackIncoming\<close> returns "Packet is a reply" when the REPLY flag is set and
  "Unsuported cipher suite" otherwise, whatever the other header bits are.
\<close>

theorem C6_suite_policing:
  assumes "4 \<le> length pkt" and "pkt ! 2 \<noteq> 0x01"
  shows "UnpackIncoming c srv pkt =
           Inl (Err (PSSSTError (if bit (pkt ! 1) 0 then ''Packet is a reply''
                                 else ''Unsuported cipher suite'')))"
  using assms
  by (simp add: UnpackIncoming_def binary_Read_def reply_bit CipherSuiteX25519AESGCM_def Let_def)

theorem C6_suite_policing_witness:
  "UnpackIncoming toy seed_server ([0x00, 0x00, 0x02, 0x00] @ replicate 48 0x00) =
     Inl (Err (PSSSTError ''Unsuported cipher suite''))"
  using C6_suite_policing [of "[0x00, 0x00, 0x02, 0x00] @ replicate 48 0x00" toy seed_server]
  by simp

text \<open>
  C6 as stated fails: the REPLY flag is checked first (line 204), so a packet with suite
  \<open>0x02\<close> and the REPLY flag is rejected as a reply.
\<close>

theorem C6_reply_flag_counterexample:
  "UnpackIncoming toy seed_server ([0x00, 0x01, 0x02, 0x00] @ replicate 48 0x00) =
     Inl (Err (PSSSTError ''Packet is a reply''))"
  by code_simp

text \<open>
  C7 (as amended). \<open>UnpackIncoming\<close> rejects every packet whose REPLY flag is set, with
  "Packet is a reply". It does not look at the reserved flag bits: a request whose REPLY
  and CLIENT\_AUTH flags are clear, sealed under its own header with the key schedule of
  its \<open>dh_param\<close>, is accepted whatever its other flag bits are.
\<close>

theorem C7_reserved_flag_bits:
  assumes "crypto_ok c"
    and "x25519 c (ServerPrivateKey srv) D = Inr S"
    and "length D = 32"
    and "kdfX25519AESGCM128 c D S = Inr (key, nc, ns)"
  shows "(g AND flagsReply \<noteq> 0 \<longrightarrow>
            UnpackIncoming c srv (binary_Write \<lparr>Flags = g, CipherSuite = s\<rparr> @ rest) =
            Inl (Err (PSSSTError ''Packet is a reply'')))
         \<and> (f AND flagsReply = 0 \<and> f AND flagsClientAuth = 0 \<longrightarrow>
            UnpackIncoming c srv
              (binary_Write \<lparr>Flags = f, CipherSuite = CipherSuiteX25519AESGCM\<rparr> @ D
               @ gcm_seal c key nc p
                   (binary_Write \<lparr>Flags = f, CipherSuite = CipherSuiteX25519AESGCM\<rparr>)) =
            Inr (p, \<lparr>sr_aesgcm = Some key, sr_hasClientAuth = False, sr_dhParam = D,
                     sr_serverNonce = ns\<rparr>, None))"
proof -
  from assms(1) have sha: "sha_ok c" and aead: "aead_ok c"
    by (simp_all add: crypto_ok_def)
  note lens = kdf_lengths(1,2) [OF sha assms(4)]
  have aes: "aes_NewCipher key = Inr key"
    using lens by (simp add: aes_NewCipher_def)
  show ?thesis
    using UnpackIncoming_sealed [OF assms(3) _ assms(2) assms(4) aes
        aead_roundtrip [OF aead lens]]
    by (simp add: UnpackIncoming_reply)
qed

theorem C7_reserved_flag_bits_witness:
  "UnpackIncoming toy seed_server ([0x00, 0x05, 0x01, 0x00] @ replicate 48 0x00) =
     Inl (Err (PSSSTError ''Packet is a reply''))
   \<and> UnpackIncoming toy seed_server
     ([0xFF, 0xFC, 0x01, 0x00] @ (0x51 # replicate 31 0x5A)
      @ toy_seal (replicate 16 0x11) (replicate 8 0x11 @ [0x52, 0x51, 0x53, 0x54]) payload_hi
          [0xFF, 0xFC, 0x01, 0x00]) =
   Inr (payload_hi, \<lparr>sr_aesgcm = Some (replicate 16 0x11), sr_hasClientAuth = False,
                     sr_dhParam = 0x51 # replicate 31 0x5A,
                     sr_serverNonce = replicate 8 0x11 @ [0x52, 0x50, 0x4C, 0x59]\<rparr>, None)"
proof -
  have a: "x25519 toy (ServerPrivateKey seed_server) (0x51 # replicate 31 0x5A)
             = Inr (0x40 # replicate 31 0x4B)"
    by code_simp
  have b: "length (0x51 # replicate 31 (0x5A::byte)) = 32"
    by simp
  have k: "kdfX25519AESGCM128 toy (0x51 # replicate 31 0x5A) (0x40 # replicate 31 0x4B) =
             Inr (replicate 16 0x11, replicate 8 0x11 @ [0x52, 0x51, 0x53, 0x54],
                  replicate 8 0x11 @ [0x52, 0x50, 0x4C, 0x59])"
    by code_simp
  have f: "(0xFFFC :: 16 word) AND flagsReply = 0 \<and> (0xFFFC :: 16 word) AND flagsClientAuth = 0"
    by (simp add: flagsReply_def flagsClientAuth_def)
  have g: "(0x0005 :: 16 word) AND flagsReply \<noteq> 0"
    by (simp add: flagsReply_def)
  have w: "binary_Write \<lparr>Flags = 0xFFFC, CipherSuite = CipherSuiteX25519AESGCM\<rparr>
             = [0xFF, 0xFC, 0x01, 0x00]"
      "binary_Write \<lparr>Flags = 0x0005, CipherSuite = 0x01\<rparr> = [0x00, 0x05, 0x01, 0x00]"
    by (simp_all add: binary_Write_def CipherSuiteX25519AESGCM_def)
  show ?thesis
    using C7_reserved_flag_bits [OF toy_crypto_ok a b k, of "0x0005" "0x01" "replicate 48 0x00"
        "0xFFFC" payload_hi] f g
    unfolding w by (simp add: toy_def)
qed

text \<open>
  C7 as stated fails: the anonymous request of the scenario with flag bit 2 set, sealed
  under that header, is accepted.
\<close>

theorem C7_reserved_bit_accepted_counterexample:
  "UnpackIncoming toy seed_server
     ([0x00, 0x04, 0x01, 0x00] @ (0x51 # replicate 31 0x5A) @ [0x68, 0x69]
      @ [0, 0, 0, 0, 0, 0, 0, 0, 0x43, 0x40, 0x42, 0x45, 0x11, 0x15, 0x10, 0x11]) =
   Inr (payload_hi, \<lparr>sr_aesgcm = Some (replicate 16 0x11), sr_hasClientAuth = False,
                     sr_dhParam = 0x51 # replicate 31 0x5A,
                     sr_serverNonce = replicate 8 0x11 @ [0x52, 0x50, 0x4C, 0x59]\<rparr>, None)"
  by code_simp

text \<open>
  C8. For all inputs \<open>dhParam\<close> and \<open>sharedSecret\<close>, with \<open>H\<close> the 32-byte SHA-256 digest
  of \<open>dhParam\<close> followed by \<open>sharedSecret\<close>, the key derivation returns the key
  \<open>H[0..16]\<close>, the client nonce \<open>H[16..24]\<close> followed by the ASCII bytes of "RQST" and the
  server nonce \<open>H[24..32]\<close> followed by the ASCII bytes of "RPLY"; both nonces have 12
  bytes.
\<close>

theorem C8_kdf_split:
  assumes "sha_ok c"
  shows "kdfX25519AESGCM128 c dhParam sharedSecret =
           Inr (map (\<lambda>i. sha256 c (dhParam @ sharedSecret) ! i) [0..<16],
                map (\<lambda>i. sha256 c (dhParam @ sharedSecret) ! i) [16..<24]
                  @ map (of_nat \<circ> of_char) ''RQST'',
                map (\<lambda>i. sha256 c (dhParam @ sharedSecret) ! i) [24..<32]
                  @ map (of_nat \<circ> of_char) ''RPLY'')
         \<and> length (fst (snd (projr (kdfX25519AESGCM128 c dhParam sharedSecret)))) = 12
         \<and> length (snd (snd (projr (kdfX25519AESGCM128 c dhParam sharedSecret)))) = 12"
proof -
  define H where "H = sha256 c (dhParam @ sharedSecret)"
  have len: "length H = 32"
    using assms by (simp add: sha_ok_def H_def)
  have a: "map (\<lambda>i. H ! i) [0..<16] = take 16 H"
    using len by (intro map_upt_eqI) simp_all
  have b: "map (\<lambda>i. H ! i) [16..<24] = take 8 (drop 16 H)"
    using len by (intro map_upt_eqI) simp_all
  have d: "map (\<lambda>i. H ! i) [24..<32] = take 8 (drop 24 H)"
    using len by (intro map_upt_eqI) simp_all
  have r1: "map (of_nat \<circ> of_char) ''RQST'' = RQST"
    by (simp add: RQST_def)
  have r2: "map (of_nat \<circ> of_char) ''RPLY'' = RPLY"
    by (simp add: RPLY_def)
  have k: "kdfX25519AESGCM128 c dhParam sharedSecret =
        Inr (take 16 H, take 8 (drop 16 H) @ RQST, take 8 (drop 24 H) @ RPLY)"
    using len by (simp add: kdfX25519AESGCM128_def H_def [symmetric] slice_def go_copy_def)
  show ?thesis
    unfolding k r1 r2 H_def [symmetric] a b d using len
    by (simp add: RQST_def RPLY_def)
qed

theorem C8_kdf_split_witness:
  "kdfX25519AESGCM128 toy (replicate 32 1) (replicate 32 2) =
     Inr (replicate 16 3, replicate 8 3 @ [0x52, 0x51, 0x53, 0x54],
          replicate 8 3 @ [0x52, 0x50, 0x4C, 0x59])"
proof -
  have H: "sha256 toy (replicate 32 1 @ replicate 32 2) = replicate 32 3"
    by (simp add: toy_def toy_sha256_def)
  have l: "map (\<lambda>i. replicate 32 (3::byte) ! i) [0..<16] = replicate 16 3"
          "map (\<lambda>i. replicate 32 (3::byte) ! i) [16..<24] = replicate 8 3"
          "map (\<lambda>i. replicate 32 (3::byte) ! i) [24..<32] = replicate 8 3"
    by (intro map_upt_eqI; simp)+
  show ?thesis
    using C8_kdf_split [OF toy_sha_ok, of "replicate 32 1" "replicate 32 2"]
    unfolding H l by simp
qed


text \<open>
  C9 (as amended). \<open>generateX22519Private\<close> draws the scalar from the reader it is given
  and leaves \<^verbatim>\<open>rand.Reader\<close> alone, and reads \<^verbatim>\<open>rand.Reader\<close> when it is given
  \<^verbatim>\<open>nil\<close>. \<open>PackOutgoing\<close> gives it \<^verbatim>\<open>nil\<close>, so in both modes the ephemeral scalar
  of a request is the clamped first 32 bytes of \<^verbatim>\<open>rand.Reader\<close>: a pack fails with the
  reader's error when \<^verbatim>\<open>rand.Reader\<close> has fewer than 32 bytes, a successful pack has
  consumed 32 bytes, and its \<open>dh_param\<close> is \<open>X25519\<close> of that scalar and the base point
  (anonymous) or the client public key (client-authenticated). Two packs of the same
  payload with the same client context return the same packet and decoder whenever the
  bytes that \<^verbatim>\<open>rand.Reader\<close> delivers clamp to the same scalar, in particular when they
  are the same 32 bytes.
\<close>

theorem C9_randomness_source:
  "(32 \<le> length rd \<longrightarrow>
      generateX22519Private (Some rd) os = (Inr (clamp (take 32 rd)), Some (drop 32 rd), os))
   \<and> (32 \<le> length os0 \<longrightarrow>
      generateX22519Private None os0 = (Inr (clamp (take 32 os0)), None, drop 32 os0))
   \<and> (32 \<le> length os1 \<and> 32 \<le> length os2 \<and> clamp (take 32 os1) = clamp (take 32 os2) \<longrightarrow>
        fst (PackOutgoing c cl os1 data) = fst (PackOutgoing c cl os2 data))
   \<and> (PackOutgoing c cl3 os3 data3 = (Inr (pkt, h), cl', os') \<longrightarrow>
        32 \<le> length os3 \<and> os' = drop 32 os3
        \<and> x25519 c (clamp (take 32 os3))
             (case ClientPrivateKey cl3 of None \<Rightarrow> Basepoint
              | Some csk \<Rightarrow> nil_bytes (clientPublicKey cl'))
           = Inr (cr_dhParam h))
   \<and> (length os4 < 32 \<longrightarrow>
        PackOutgoing c cl4 os4 data4 =
          (Inl (Err (if os4 = [] then EOF else ErrUnexpectedEOF)), cl4, []))"
proof (intro conjI impI)
  assume "32 \<le> length rd"
  then show "generateX22519Private (Some rd) os =
               (Inr (clamp (take 32 rd)), Some (drop 32 rd), os)"
    by (rule generateX22519Private_reader)
next
  assume "32 \<le> length os0"
  then show "generateX22519Private None os0 = (Inr (clamp (take 32 os0)), None, drop 32 os0)"
    by (rule generateX22519Private_nil)
next
  assume "32 \<le> length os1 \<and> 32 \<le> length os2 \<and> clamp (take 32 os1) = clamp (take 32 os2)"
  then show "fst (PackOutgoing c cl os1 data) = fst (PackOutgoing c cl os2 data)"
    by (simp add: PackOutgoing_clamp)
next
  assume a: "PackOutgoing c cl3 os3 data3 = (Inr (pkt, h), cl', os')"
  from PackOutgoing_dhParam [OF a]
  show "32 \<le> length os3" and "os' = drop 32 os3"
    and "x25519 c (clamp (take 32 os3))
             (case ClientPrivateKey cl3 of None \<Rightarrow> Basepoint
              | Some csk \<Rightarrow> nil_bytes (clientPublicKey cl'))
           = Inr (cr_dhParam h)"
    by simp_all
next
  assume "length os4 < 32"
  then show "PackOutgoing c cl4 os4 data4 =
          (Inl (Err (if os4 = [] then EOF else ErrUnexpectedEOF)), cl4, [])"
    by (simp add: PackOutgoing_def generateX22519Private_def io_ReadFull_def)
qed

theorem C9_randomness_source_witness:
  "generateX22519Private (Some seed_random) other_random =
     (Inr (clamp (take 32 seed_random)), Some (drop 32 seed_random), other_random)
   \<and> generateX22519Private None seed_random =
     (Inr (clamp (take 32 seed_random)), None, drop 32 seed_random)
   \<and> seed_random \<noteq> low_bits_random
   \<and> fst (PackOutgoing toy (seed_client None) seed_random payload_hi)
       = fst (PackOutgoing toy (seed_client None) low_bits_random payload_hi)
   \<and> x25519 toy (clamp (take 32 seed_random)) (nil_bytes (clientPublicKey seed_client_auth_after))
       = Inr (cr_dhParam seed_decoder_auth)
   \<and> PackOutgoing toy (seed_client None) (take 31 seed_random) payload_hi =
       (Inl (Err ErrUnexpectedEOF), seed_client None, [])"
proof -
  have a: "32 \<le> length seed_random" "32 \<le> length low_bits_random"
    "length (take 31 seed_random) < 32" "take 31 seed_random \<noteq> []"
    by (simp_all add: seed_random_def low_bits_random_def)
  have e: "clamp (take 32 seed_random) = clamp (take 32 low_bits_random)"
    "seed_random \<noteq> low_bits_random"
    by code_simp+
  have k: "ClientPrivateKey (seed_client (Some (replicate 32 0x22))) = Some (replicate 32 0x22)"
    by (simp add: seed_client_def)
  note t = C9_randomness_source [where rd = seed_random and os = other_random and ?os0.0 = seed_random
      and ?os1.0 = seed_random and ?os2.0 = low_bits_random and c = toy
      and cl = "seed_client None" and data = payload_hi
      and ?cl3.0 = "seed_client (Some (replicate 32 0x22))" and ?os3.0 = seed_random
      and ?data3.0 = payload_hi and pkt = seed_request_auth and h = seed_decoder_auth
      and cl' = seed_client_auth_after and os' = "[]"
      and ?os4.0 = "take 31 seed_random" and ?cl4.0 = "seed_client None"
      and ?data4.0 = payload_hi]
  from t a(1) have 1: "generateX22519Private (Some seed_random) other_random =
     (Inr (clamp (take 32 seed_random)), Some (drop 32 seed_random), other_random)"
    by blast
  from t a(1) have 2: "generateX22519Private None seed_random =
     (Inr (clamp (take 32 seed_random)), None, drop 32 seed_random)"
    by blast
  from t a e have 3: "fst (PackOutgoing toy (seed_client None) seed_random payload_hi)
       = fst (PackOutgoing toy (seed_client None) low_bits_random payload_hi)"
    by blast
  from t seed_pack_auth have "x25519 toy (clamp (take 32 seed_random))
       (case ClientPrivateKey (seed_client (Some (replicate 32 0x22))) of None \<Rightarrow> Basepoint
        | Some csk \<Rightarrow> nil_bytes (clientPublicKey seed_client_auth_after))
       = Inr (cr_dhParam seed_decoder_auth)"
    by blast
  then have 4: "x25519 toy (clamp (take 32 seed_random))
       (nil_bytes (clientPublicKey seed_client_auth_after)) = Inr (cr_dhParam seed_decoder_auth)"
    unfolding k by simp
  from t a(3) have "PackOutgoing toy (seed_client None) (take 31 seed_random) payload_hi =
       (Inl (Err (if take 31 seed_random = [] then EOF else ErrUnexpectedEOF)),
        seed_client None, [])"
    by blast
  then have 5: "PackOutgoing toy (seed_client None) (take 31 seed_random) payload_hi =
       (Inl (Err ErrUnexpectedEOF), seed_client None, [])"
    using a(4) by simp
  from 1 2 e(2) 3 4 5 show ?thesis
    by (intro conjI)
qed

text \<open>
  C9 as stated fails: \<open>PackOutgoing\<close> has no reader to configure. With the same client
  context and the same payload, the packets differ for the two outputs \<open>seed_random\<close>
  and \<open>other_random\<close> of \<^verbatim>\<open>rand.Reader\<close>.
\<close>

theorem C9_os_randomness_counterexample:
  "fst (PackOutgoing toy (seed_client None) seed_random payload_hi)
     \<noteq> fst (PackOutgoing toy (seed_client None) other_random payload_hi)"
  by code_simp

text \<open>
  C10. A request with the CLIENT\_AUTH flag that \<open>UnpackIncoming\<close> opens to a payload
  shorter than 64 bytes makes it panic. Such a request can be built from the server's
  public key alone: take any scalar \<open>e\<close>, the anonymous key schedule
  \<open>dh_param = X25519(e, Basepoint)\<close>, \<open>shared_secret = X25519(e, pk)\<close>, and seal a short
  payload under a header with CLIENT\_AUTH.
\<close>

theorem C10_short_auth_payload_panics:
  assumes "crypto_ok c"
    and "x25519 c sk Basepoint = Inr pk"
    and "ServerPrivateKey srv = sk"
  shows "(binary_Read pkt = Inr hdr \<and> Flags hdr AND flagsReply = 0
            \<and> Flags hdr AND flagsClientAuth \<noteq> 0
            \<and> CipherSuite hdr = CipherSuiteX25519AESGCM
            \<and> slice pkt 4 36 = Inr D' \<and> x25519 c sk D' = Inr S'
            \<and> kdfX25519AESGCM128 c D' S' = Inr (key', nc', ns')
            \<and> gcm_open c key' nc' (drop 36 pkt) (take 4 pkt) = Some payload'
            \<and> length payload' < 64
          \<longrightarrow> UnpackIncoming c srv pkt = Inl Panic)
         \<and> (x25519 c e Basepoint = Inr D \<and> x25519 c e pk = Inr S
              \<and> kdfX25519AESGCM128 c D S = Inr (key, nc, ns) \<and> length payload < 64
          \<longrightarrow> UnpackIncoming c srv
                (binary_Write \<lparr>Flags = flagsClientAuth, CipherSuite = CipherSuiteX25519AESGCM\<rparr>
                 @ D
                 @ gcm_seal c key nc payload
                     (binary_Write
                        \<lparr>Flags = flagsClientAuth, CipherSuite = CipherSuiteX25519AESGCM\<rparr>))
              = Inl Panic)"
proof (intro conjI impI)
  from assms(1) have sha: "sha_ok c" and dh: "dh_ok c" and aead: "aead_ok c"
    by (simp_all add: crypto_ok_def)
  have aes: "aes_NewCipher k = Inr k" if "kdfX25519AESGCM128 c X Y = Inr (k, n, m)" for X Y k n m
    using kdf_total [OF sha, of X Y] that by (auto simp: aes_NewCipher_def)
  {
    assume a: "binary_Read pkt = Inr hdr \<and> Flags hdr AND flagsReply = 0
            \<and> Flags hdr AND flagsClientAuth \<noteq> 0
            \<and> CipherSuite hdr = CipherSuiteX25519AESGCM
            \<and> slice pkt 4 36 = Inr D' \<and> x25519 c sk D' = Inr S'
            \<and> kdfX25519AESGCM128 c D' S' = Inr (key', nc', ns')
            \<and> gcm_open c key' nc' (drop 36 pkt) (take 4 pkt) = Some payload'
            \<and> length payload' < 64"
    then have "aes_NewCipher key' = Inr key'"
      using aes by blast
    with a show "UnpackIncoming c srv pkt = Inl Panic"
      using assms(3) by (intro UnpackIncoming_short_auth_payload [where hdr = hdr]) auto
  }
  {
    let ?h = "binary_Write \<lparr>Flags = flagsClientAuth, CipherSuite = CipherSuiteX25519AESGCM\<rparr>"
    assume b: "x25519 c e Basepoint = Inr D \<and> x25519 c e pk = Inr S
              \<and> kdfX25519AESGCM128 c D S = Inr (key, nc, ns) \<and> length payload < 64"
    then have lD: "length D = 32"
      using dh by (auto dest: dh_length)
    have sS: "x25519 c (ServerPrivateKey srv) D = Inr S"
      using dh_commute [OF dh _ assms(2), of e D] b assms(3) by simp
    have k: "aes_NewCipher key = Inr key"
      using aes b by blast
    have kdf: "kdfX25519AESGCM128 c D S = Inr (key, nc, ns)"
      using b by simp
    show "UnpackIncoming c srv (?h @ D @ gcm_seal c key nc payload ?h) = Inl Panic"
      using UnpackIncoming_sealed [OF lD _ sS kdf k aead_roundtrip [OF aead
            kdf_lengths(1,2) [OF sha kdf]]] b
      by (simp add: slice_def)
  }
qed

theorem C10_short_auth_payload_panics_witness:
  "UnpackIncoming toy seed_server short_auth_request = Inl Panic
   \<and> UnpackIncoming toy seed_server
     ([0x00, 0x02, 0x01, 0x00] @ (0x51 # replicate 31 0x5A)
      @ toy_seal (replicate 16 0x11) (replicate 8 0x11 @ [0x52, 0x51, 0x53, 0x54]) payload_hi
          [0x00, 0x02, 0x01, 0x00]) = Inl Panic"
proof -
  have srv: "ServerPrivateKey seed_server = replicate 32 0x11"
    by (simp add: seed_server_def)
  have l: "length payload_hi < 64"
    by (simp add: payload_hi_def)
  have a: "x25519 toy (0x58 # replicate 31 0x5A) Basepoint = Inr (0x51 # replicate 31 0x5A)"
    "x25519 toy (0x58 # replicate 31 0x5A) seed_server_pub = Inr (0x40 # replicate 31 0x4B)"
    by code_simp+
  have k: "kdfX25519AESGCM128 toy (0x51 # replicate 31 0x5A) (0x40 # replicate 31 0x4B) =
             Inr (replicate 16 0x11, replicate 8 0x11 @ [0x52, 0x51, 0x53, 0x54],
                  replicate 8 0x11 @ [0x52, 0x50, 0x4C, 0x59])"
    by code_simp
  have w: "binary_Write \<lparr>Flags = flagsClientAuth, CipherSuite = CipherSuiteX25519AESGCM\<rparr>
             = [0x00, 0x02, 0x01, 0x00]"
    by (simp add: binary_Write_def CipherSuiteX25519AESGCM_def flagsClientAuth_def)
  have p: "binary_Read short_auth_request = Inr \<lparr>Flags = 2, CipherSuite = 1\<rparr>"
    "slice short_auth_request 4 36 = Inr (0x51 # replicate 31 0x5A)"
    "x25519 toy (replicate 32 0x11) (0x51 # replicate 31 0x5A) = Inr (0x40 # replicate 31 0x4B)"
    "gcm_open toy (replicate 16 0x11) (replicate 8 0x11 @ [0x52, 0x51, 0x53, 0x54])
       (drop 36 short_auth_request) (take 4 short_auth_request) = Some []"
    by code_simp+
  have f: "Flags \<lparr>Flags = 2, CipherSuite = 1\<rparr> AND flagsReply = 0"
    "Flags \<lparr>Flags = 2, CipherSuite = 1\<rparr> AND flagsClientAuth \<noteq> 0"
    "CipherSuite \<lparr>Flags = 2, CipherSuite = 1\<rparr> = CipherSuiteX25519AESGCM"
    by (simp_all add: flagsReply_def flagsClientAuth_def CipherSuiteX25519AESGCM_def)
  note t = C10_short_auth_payload_panics [OF toy_crypto_ok seed_server_keypair srv,
      where e = "0x58 # replicate 31 0x5A" and D = "0x51 # replicate 31 0x5A"
        and S = "0x40 # replicate 31 0x4B" and key = "replicate 16 0x11"
        and nc = "replicate 8 0x11 @ [0x52, 0x51, 0x53, 0x54]"
        and ns = "replicate 8 0x11 @ [0x52, 0x50, 0x4C, 0x59]" and payload = payload_hi
        and pkt = short_auth_request and hdr = "\<lparr>Flags = 2, CipherSuite = 1\<rparr>"
        and D' = "0x51 # replicate 31 0x5A" and S' = "0x40 # replicate 31 0x4B"
        and key' = "replicate 16 0x11" and nc' = "replicate 8 0x11 @ [0x52, 0x51, 0x53, 0x54]"
        and ns' = "replicate 8 0x11 @ [0x52, 0x50, 0x4C, 0x59]" and payload' = "[]"]
  from t p f k have "UnpackIncoming toy seed_server short_auth_request = Inl Panic"
    by simp
  moreover from t a k l have "UnpackIncoming toy seed_server
     (binary_Write \<lparr>Flags = flagsClientAuth, CipherSuite = CipherSuiteX25519AESGCM\<rparr>
      @ (0x51 # replicate 31 0x5A)
      @ gcm_seal toy (replicate 16 0x11) (replicate 8 0x11 @ [0x52, 0x51, 0x53, 0x54]) payload_hi
          (binary_Write \<lparr>Flags = flagsClientAuth, CipherSuite = CipherSuiteX25519AESGCM\<rparr>))
       = Inl Panic"
    by simp
  ultimately show ?thesis
    unfolding w by (simp add: toy_def)
qed

end
